theory Spec2Isabelle
  imports Complex_Main
begin

text \<open>
  A model of \<open>backend/yelp_scraper.py\<close>. The HTTP directory, the menu pages and the
  database are parameters of the functions; every function that can raise returns a sum
  with the exception on the left. Calls to the logger and to \<open>time.sleep\<close> change nothing
  that a result depends on and are left out.
\<close>

section \<open>Python string primitives used by the scraper\<close>

text \<open>
  Strings are \<^typ>\<open>string\<close>, one \<^typ>\<open>char\<close> per character. The source works on
  Python \<open>str\<close>; the model covers the characters with code below 256 (Latin-1), where
  \<open>\d\<close> matches the ten ASCII digits only and \<open>str.lower\<close> changes the letters \<open>A\<close> to
  \<open>Z\<close> and the accented capitals \<open>0xC0\<close> to \<open>0xDE\<close>. The letter \<open>e\<close> with acute accent
  is the single char \<open>0xE9\<close>.
\<close>

definition is_digit :: "char \<Rightarrow> bool" where
  "is_digit c = (c \<in> set ''0123456789'')"

text \<open>The character class \<open>[a-z0-9]\<close>.\<close>

definition is_lower_alnum :: "char \<Rightarrow> bool" where
  "is_lower_alnum c = (c \<in> set ''abcdefghijklmnopqrstuvwxyz0123456789'')"

definition upper_letters :: string where
  "upper_letters =
     ''ABCDEFGHIJKLMNOPQRSTUVWXYZ'' @
      [CHR 0xC0, CHR 0xC1, CHR 0xC2, CHR 0xC3, CHR 0xC4, CHR 0xC5, CHR 0xC6, CHR 0xC7,
       CHR 0xC8, CHR 0xC9, CHR 0xCA, CHR 0xCB, CHR 0xCC, CHR 0xCD, CHR 0xCE, CHR 0xCF,
       CHR 0xD0, CHR 0xD1, CHR 0xD2, CHR 0xD3, CHR 0xD4, CHR 0xD5, CHR 0xD6, CHR 0xD8,
       CHR 0xD9, CHR 0xDA, CHR 0xDB, CHR 0xDC, CHR 0xDD, CHR 0xDE]"

definition lower_letters :: string where
  "lower_letters =
     ''abcdefghijklmnopqrstuvwxyz'' @
      [CHR 0xE0, CHR 0xE1, CHR 0xE2, CHR 0xE3, CHR 0xE4, CHR 0xE5, CHR 0xE6, CHR 0xE7,
       CHR 0xE8, CHR 0xE9, CHR 0xEA, CHR 0xEB, CHR 0xEC, CHR 0xED, CHR 0xEE, CHR 0xEF,
       CHR 0xF0, CHR 0xF1, CHR 0xF2, CHR 0xF3, CHR 0xF4, CHR 0xF5, CHR 0xF6, CHR 0xF8,
       CHR 0xF9, CHR 0xFA, CHR 0xFB, CHR 0xFC, CHR 0xFD, CHR 0xFE]"

definition lower_char :: "char \<Rightarrow> char" where
  "lower_char c =
     (case map_of (zip upper_letters lower_letters) c of
        Some d \<Rightarrow> d
      | None \<Rightarrow> c)"

text \<open>\<open>s.lower()\<close>\<close>

definition lower :: "string \<Rightarrow> string" where
  "lower s = map lower_char s"

text \<open>
  \<open>re.sub(r'[C]+', '-', s)\<close> for a character class \<open>C\<close> given as a predicate: every
  maximal run of characters of the class becomes one hyphen.
\<close>

function re_sub_runs :: "(char \<Rightarrow> bool) \<Rightarrow> string \<Rightarrow> string" where
  "re_sub_runs p [] = []"
| "re_sub_runs p (c # cs) =
     (if p c then CHR ''-'' # re_sub_runs p (dropWhile p cs) else c # re_sub_runs p cs)"
  by pat_completeness auto
termination
  by (relation "measure (\<lambda>(p, s). length s)") (auto simp: length_dropWhile_le less_Suc_eq_le)

text \<open>\<open>s.strip(chars)\<close> for a set of characters given as a predicate.\<close>

definition strip_chars :: "(char \<Rightarrow> bool) \<Rightarrow> string \<Rightarrow> string" where
  "strip_chars p s = rev (dropWhile p (rev (dropWhile p s)))"

text \<open>
  The whitespace that \<open>s.strip()\<close> removes, among the characters below 256: tab, LF, VT,
  FF, CR, the separators \<open>0x1C\<close> to \<open>0x1F\<close>, space, NEL and the no-break space.
\<close>

definition is_space :: "char \<Rightarrow> bool" where
  "is_space c =
     (c \<in> set [CHR 0x09, CHR 0x0A, CHR 0x0B, CHR 0x0C, CHR 0x0D, CHR 0x1C, CHR 0x1D, CHR 0x1E,
               CHR 0x1F, CHR 0x20, CHR 0x85, CHR 0xA0])"

definition strip :: "string \<Rightarrow> string" where
  "strip s = strip_chars is_space s"

text \<open>\<open>s.split(sep)\<close> for a one-character separator: never an empty list.\<close>

fun split_on :: "char \<Rightarrow> string \<Rightarrow> string list" where
  "split_on sep [] = [[]]"
| "split_on sep (c # cs) =
     (if c = sep then [] # split_on sep cs
      else (case split_on sep cs of
              [] \<Rightarrow> [[c]]
            | p # ps \<Rightarrow> (c # p) # ps))"

text \<open>\<open>sub in s\<close> on strings: \<open>sub\<close> occurs in \<open>s\<close> as a contiguous substring.\<close>

fun str_in :: "string \<Rightarrow> string \<Rightarrow> bool" where
  "str_in sub [] = (sub = [])"
| "str_in sub (c # cs) = (take (length sub) (c # cs) = sub \<or> str_in sub cs)"

section \<open>Exceptions\<close>

text \<open>
  Every \<open>raise\<close> of the source is a value: \<open>KeyError\<close> of a subscript on a missing key,
  \<open>AttributeError\<close> of a method that the value does not have, \<open>TypeError\<close> and
  \<open>ValueError\<close> of an operation on a value of the wrong type or shape,
  \<open>RequestException\<close> of the HTTP library, \<open>APIError\<close> of the database client, and
  \<open>OtherException\<close> for anything else a library call raises.
\<close>

datatype exn =
  KeyError string | AttributeError | TypeError | ValueError
  | RequestException | APIError | OtherException

section \<open>JSON values\<close>

text \<open>
  What \<open>response.json()\<close> returns: \<open>None\<close>, a bool, a number, a str, a list or a dict with
  str keys. A dict is the list of its items in insertion order, one item per key.
  Nothing in the scraper checks the type of a value it reads, so every operation on a
  value is modelled for every kind of value, with the exception Python raises.
\<close>

datatype json =
  JNull | JBool bool | JNum rat | JStr string | JArr "json list" | JObj "(string \<times> json) list"

text \<open>\<open>if v:\<close>\<close>

definition truthy :: "json \<Rightarrow> bool" where
  "truthy v =
     (case v of
        JNull \<Rightarrow> False
      | JBool b \<Rightarrow> b
      | JNum x \<Rightarrow> x \<noteq> 0
      | JStr s \<Rightarrow> s \<noteq> []
      | JArr xs \<Rightarrow> xs \<noteq> []
      | JObj items \<Rightarrow> items \<noteq> [])"

text \<open>\<open>d.get(key, default)\<close> on a dict.\<close>

definition dict_get :: "(string \<times> json) list \<Rightarrow> string \<Rightarrow> json \<Rightarrow> json" where
  "dict_get d key dflt = (case map_of d key of None \<Rightarrow> dflt | Some v \<Rightarrow> v)"

text \<open>\<open>v.get(key)\<close> on any value: only a dict has the method.\<close>

definition attr_get :: "json \<Rightarrow> string \<Rightarrow> exn + json" where
  "attr_get v key =
     (case v of JObj items \<Rightarrow> Inr (dict_get items key JNull) | _ \<Rightarrow> Inl AttributeError)"

text \<open>
  \<open>v[key]\<close> with a str key on any value: a dict looks the key up, a str or a list wants
  an integer index, the other values have no subscript.
\<close>

definition subscript :: "json \<Rightarrow> string \<Rightarrow> exn + json" where
  "subscript v key =
     (case v of
        JObj items \<Rightarrow> (case map_of items key of None \<Rightarrow> Inl (KeyError key) | Some x \<Rightarrow> Inr x)
      | _ \<Rightarrow> Inl TypeError)"

text \<open>
  The elements that a \<open>for\<close> loop, \<open>str.join\<close> or \<open>dict.update\<close> draws from a value: the
  elements of a list, the characters of a str, the keys of a dict; the other values are
  not iterable.
\<close>

definition py_iter :: "json \<Rightarrow> exn + json list" where
  "py_iter v =
     (case v of
        JArr xs \<Rightarrow> Inr xs
      | JStr s \<Rightarrow> Inr (map (\<lambda>c. JStr [c]) s)
      | JObj items \<Rightarrow> Inr (map (\<lambda>item. JStr (fst item)) items)
      | _ \<Rightarrow> Inl TypeError)"

text \<open>The strings of a list whose elements are all of type str.\<close>

fun strings_of :: "json list \<Rightarrow> string list option" where
  "strings_of [] = Some []"
| "strings_of (x # xs) =
     (case x of
        JStr s \<Rightarrow> (case strings_of xs of None \<Rightarrow> None | Some ss \<Rightarrow> Some (s # ss))
      | _ \<Rightarrow> None)"

text \<open>\<open>sep.join(xs)\<close> on strings.\<close>

fun join :: "string \<Rightarrow> string list \<Rightarrow> string" where
  "join sep [] = []"
| "join sep [x] = x"
| "join sep (x # y # ys) = x @ sep @ join sep (y # ys)"

text \<open>\<open>sep.join(v)\<close> on any value: \<open>TypeError\<close> unless \<open>v\<close> is an iterable of str.\<close>

definition py_join :: "string \<Rightarrow> json \<Rightarrow> exn + string" where
  "py_join sep v =
     (case py_iter v of
        Inl e \<Rightarrow> Inl e
      | Inr xs \<Rightarrow> (case strings_of xs of None \<Rightarrow> Inl TypeError | Some ss \<Rightarrow> Inr (join sep ss)))"

section \<open>The Restaurant dataclass\<close>

text \<open>
  The dataclass does not enforce its annotations: seven fields hold whatever value the
  business dict has under the key. \<open>address\<close> and \<open>cuisine_type\<close> are \<open>None\<close> or the str
  that \<open>join\<close> built.
\<close>

record Restaurant =
  name :: json
  rating :: json
  review_count :: json
  price_range :: json
  yelp_id :: json
  website :: json
  address :: "string option"
  phone :: json
  cuisine_type :: "string option"

section \<open>\<open>construct_menu_url\<close>\<close>

text \<open>
  Lines 143 to 147: the name part of the menu URL. Lower-case the name, replace every run
  of characters outside \<open>[a-z0-9]\<close> by a hyphen, collapse runs of hyphens, strip hyphens
  at both ends.
\<close>

definition name_slug :: "string \<Rightarrow> string" where
  "name_slug nm =
     strip_chars (\<lambda>c. c = CHR ''-'')
       (re_sub_runs (\<lambda>c. c = CHR ''-'')
         (re_sub_runs (\<lambda>c. \<not> is_lower_alnum c) (lower nm)))"

text \<open>
  The body of the loop over the comma-separated parts of the address (lines 155 to 167):
  the \<open>if\<close>/\<open>elif\<close> chain assigns \<open>location\<close> when a known city occurs in the part and
  leaves it as it is otherwise, so the last part that names a city decides.
\<close>

definition location_step :: "string \<Rightarrow> string \<Rightarrow> string" where
  "location_step location part0 =
     (let part = strip part0 in
      if str_in ''san ramon'' part then ''san-ramon''
      else if str_in ''dublin'' part then ''dublin''
      else if str_in ''pleasanton'' part then ''pleasanton''
      else if str_in ''livermore'' part then ''livermore''
      else if str_in ''castro valley'' part then ''castro-valley''
      else if str_in ''hayward'' part then ''hayward''
      else location)"

text \<open>Lines 150 to 167. An absent or empty address is falsy and keeps the default.\<close>

definition location_slug :: "string option \<Rightarrow> string" where
  "location_slug addr =
     (case addr of
        None \<Rightarrow> ''san-ramon''
      | Some a \<Rightarrow>
          if a = [] then ''san-ramon''
          else foldl location_step ''san-ramon'' (split_on CHR '','' (lower a)))"

text \<open>
  Lines 140 to 171. \<open>restaurant.name.lower()\<close> raises \<open>AttributeError\<close> unless the name is
  a str.
\<close>

definition construct_menu_url :: "Restaurant \<Rightarrow> exn + string" where
  "construct_menu_url restaurant =
     (case name restaurant of
        JStr nm \<Rightarrow>
          Inr (''https://www.yelp.com/menu/'' @ name_slug nm @ ''-''
                 @ location_slug (address restaurant))
      | _ \<Rightarrow> Inl AttributeError)"

section \<open>\<open>clean_price\<close>\<close>

text \<open>The value of a string of decimal digits, most significant first.\<close>

definition digits_value :: "string \<Rightarrow> nat" where
  "digits_value ds = foldl (\<lambda>n c. 10 * n + (of_char c - 48)) 0 ds"

text \<open>
  Python's \<open>float(s)\<close> on the strings \<open>clean_price\<close> hands to it, which hold digits and
  decimal points only: digits with at most one point and at least one digit convert
  (\<open>''5.''\<close> and \<open>''.5''\<close> included), everything else raises \<open>ValueError\<close>, here \<open>None\<close>.
  The result is the exact value of the decimal; Python rounds it to the nearest double.
\<close>

definition py_float :: "string \<Rightarrow> rat option" where
  "py_float s =
     (let ip = takeWhile is_digit s; rest = dropWhile is_digit s in
      case rest of
        [] \<Rightarrow> if ip = [] then None else Some (of_nat (digits_value ip))
      | c # fp \<Rightarrow>
          if c = CHR ''.'' \<and> list_all is_digit fp \<and> \<not> (ip = [] \<and> fp = [])
          then Some (of_nat (digits_value ip) + of_nat (digits_value fp) / 10 ^ length fp)
          else None)"

text \<open>The character class \<open>[\d.]\<close>.\<close>

definition is_digit_or_point :: "char \<Rightarrow> bool" where
  "is_digit_or_point c = (is_digit c \<or> c = CHR ''.'')"

text \<open>
  Lines 287 to 298. \<open>re.sub(r'[^\d.]', '', price_str)\<close> deletes every character that is
  neither a digit nor a point.
\<close>

definition clean_price :: "string \<Rightarrow> rat option" where
  "clean_price price_str =
     (if price_str = [] then None
      else let cleaned = filter is_digit_or_point price_str in
           if cleaned = [] then None else py_float cleaned)"

section \<open>\<open>search_restaurants_batch\<close>\<close>

text \<open>
  A business of the directory is a JSON object, hence a Python dict: the list of its
  items. The values under its keys are JSON values of any kind.
\<close>

type_synonym business = "(string \<times> json) list"

text \<open>
  The \<open>params\<close> of one search request; \<open>term\<close> and \<open>categories\<close> are constants. The
  directory answers a request with an exception (network error, HTTP error status,
  malformed JSON) or with \<open>data.get('businesses', [])\<close>, a list of objects.
\<close>

record search_params =
  param_location :: string
  param_limit :: int
  param_offset :: int

type_synonym directory = "search_params \<Rightarrow> exn + business list"

text \<open>
  The loop of lines 55 to 94 over the batch numbers still to run. The state is
  \<open>all_businesses\<close> and a log of the requests issued, each with the length of
  \<open>all_businesses\<close> at the time of the request (what lines 71 and 84 write to the logger).
  \<open>break\<close> returns the state, \<open>continue\<close> goes on with the next batch number.
\<close>

fun search_loop ::
  "directory \<Rightarrow> string \<Rightarrow> int \<Rightarrow> nat list \<Rightarrow>
   business list \<times> (search_params \<times> nat) list \<Rightarrow> business list \<times> (search_params \<times> nat) list"
where
  "search_loop api location total_limit [] st = st"
| "search_loop api location total_limit (batch_num # rest) (all_businesses, issued) =
     (let offset = int batch_num * 50;
          limit = min 50 (total_limit - int (length all_businesses))
      in if limit \<le> 0 then (all_businesses, issued)
         else
           let params = \<lparr>param_location = location, param_limit = limit, param_offset = offset\<rparr>;
               issued' = issued @ [(params, length all_businesses)]
           in case api params of
                Inl e \<Rightarrow> search_loop api location total_limit rest (all_businesses, issued')
              | Inr businesses \<Rightarrow>
                  if businesses = [] then (all_businesses, issued')
                  else search_loop api location total_limit rest
                         (all_businesses @ businesses, issued'))"

definition search_run ::
  "directory \<Rightarrow> string \<Rightarrow> int \<Rightarrow> business list \<times> (search_params \<times> nat) list" where
  "search_run api location total_limit =
     (let batch_size = 50;
          num_batches = (total_limit + batch_size - 1) div batch_size
      in search_loop api location total_limit [0 ..< nat num_batches] ([], []))"

definition search_restaurants_batch :: "directory \<Rightarrow> string \<Rightarrow> int \<Rightarrow> business list" where
  "search_restaurants_batch api location total_limit = fst (search_run api location total_limit)"

text \<open>The provider's contract: a page never holds more businesses than the request's \<open>limit\<close>.\<close>

definition honours_limit :: "directory \<Rightarrow> bool" where
  "honours_limit api =
     (\<forall>params. case api params of
                 Inl e \<Rightarrow> True
               | Inr bs \<Rightarrow> length bs \<le> nat (param_limit params))"

section \<open>\<open>get_restaurant_details\<close> and \<open>convert_to_restaurant\<close>\<close>

text \<open>
  The detail endpoint answers a business id with an exception or with the JSON value of
  the response body. Lines 99 to 111: an exception gives \<open>None\<close>.
\<close>

definition get_restaurant_details :: "(json \<Rightarrow> exn + json) \<Rightarrow> json \<Rightarrow> json option" where
  "get_restaurant_details api business_id =
     (case api business_id of Inl e \<Rightarrow> None | Inr v \<Rightarrow> Some v)"

text \<open>
  Lines 116 to 118. \<open>business_data.get('location', {})\<close> is any value, and \<open>.get\<close> on it
  raises unless it is a dict. A truthy \<open>display_address\<close> is joined, which raises unless
  it is an iterable of str.
\<close>

definition address_of :: "business \<Rightarrow> exn + string option" where
  "address_of business_data =
     (case attr_get (dict_get business_data ''location'' (JObj [])) ''display_address'' of
        Inl e \<Rightarrow> Inl e
      | Inr lines \<Rightarrow>
          if truthy lines then
            (case py_join '', '' lines of Inl e \<Rightarrow> Inl e | Inr a \<Rightarrow> Inr (Some a))
          else Inr None)"

text \<open>The list comprehension of line 123: \<open>cat['title']\<close> for each element in turn.\<close>

fun titles_of :: "json list \<Rightarrow> exn + json list" where
  "titles_of [] = Inr []"
| "titles_of (cat # cats) =
     (case subscript cat ''title'' of
        Inl e \<Rightarrow> Inl e
      | Inr title \<Rightarrow>
          (case titles_of cats of Inl e \<Rightarrow> Inl e | Inr titles \<Rightarrow> Inr (title # titles)))"

text \<open>Lines 121 to 123.\<close>

definition cuisine_type_of :: "business \<Rightarrow> exn + string option" where
  "cuisine_type_of business_data =
     (let categories = dict_get business_data ''categories'' JNull in
      if truthy categories then
        (case py_iter categories of
           Inl e \<Rightarrow> Inl e
         | Inr cats \<Rightarrow>
             (case titles_of cats of
                Inl e \<Rightarrow> Inl e
              | Inr titles \<Rightarrow>
                  (case py_join '', '' (JArr titles) of
                     Inl e \<Rightarrow> Inl e
                   | Inr c \<Rightarrow> Inr (Some c))))
      else Inr None)"

text \<open>Lines 113 to 138. The seven \<open>.get\<close> of the constructor call cannot raise.\<close>

definition convert_to_restaurant :: "business \<Rightarrow> exn + Restaurant" where
  "convert_to_restaurant business_data =
     (case address_of business_data of
        Inl e \<Rightarrow> Inl e
      | Inr addr \<Rightarrow>
          (case cuisine_type_of business_data of
             Inl e \<Rightarrow> Inl e
           | Inr cuisine \<Rightarrow>
               Inr \<lparr>name = dict_get business_data ''name'' (JStr ''Unknown''),
                    rating = dict_get business_data ''rating'' JNull,
                    review_count = dict_get business_data ''review_count'' JNull,
                    price_range = dict_get business_data ''price'' JNull,
                    yelp_id = dict_get business_data ''id'' (JStr []),
                    website = dict_get business_data ''url'' JNull,
                    address = addr,
                    phone = dict_get business_data ''phone'' JNull,
                    cuisine_type = cuisine\<rparr>))"

section \<open>\<open>scrape_menu_from_yelp\<close>\<close>

text \<open>
  What the scraper sees of a parsed page. The page answers \<open>soup.select(selector)\<close> with
  the list of elements that match. An element answers \<open>item.select_one(selector)\<close>
  followed by \<open>get_text(strip=True)\<close>: \<open>None\<close> when no descendant matches, otherwise the
  stripped text of the first match, which may be empty. A tag is truthy whatever it
  holds, so \<open>if name_elem:\<close> tests only that a match exists.
\<close>

type_synonym element = "string \<Rightarrow> string option"

type_synonym soup = "string \<Rightarrow> element list"

text \<open>The outcome of fetching and parsing a URL: an exception or the parsed page.\<close>

type_synonym web = "string \<Rightarrow> exn + soup"

text \<open>A scraped menu item, the dict with the keys \<open>name\<close>, \<open>description\<close> and \<open>price\<close>.\<close>

record dish =
  dish_name :: string
  dish_description :: string
  dish_price :: string

definition selectors_to_try :: "string list" where
  "selectors_to_try =
     [''div.menu-item'', ''[data-testid=\"menu-item\"]'', ''.menu-item-details'',
      ''.menuItem'', ''.biz-menu-item'']"

definition name_selectors :: "string list" where
  "name_selectors = [''h4'', ''.menu-item-name'', ''.item-name'', ''h3'', ''strong'']"

definition desc_selectors :: "string list" where
  "desc_selectors =
     [''.menu-item-details-description'', ''.menu-item-description'', ''.item-description'',
      ''p'']"

definition price_selectors :: "string list" where
  "price_selectors =
     [''.menu-item-price-amount'', ''.menu-item-price'', ''.item-price'', ''.price'']"

text \<open>Lines 193 to 197: \<open>items\<close> after the loop over the container selectors.\<close>

fun first_items :: "soup \<Rightarrow> string list \<Rightarrow> element list" where
  "first_items page [] = []"
| "first_items page (selector # rest) =
     (let items = page selector in if items \<noteq> [] then items else first_items page rest)"

text \<open>
  Lines 206 to 212 and 215 to 226: the text of the first selector that matches an
  element, the empty string when none matches.
\<close>

fun first_text :: "element \<Rightarrow> string list \<Rightarrow> string" where
  "first_text item [] = []"
| "first_text item (sel # rest) =
     (case item sel of Some txt \<Rightarrow> txt | None \<Rightarrow> first_text item rest)"

text \<open>The character class \<open>[\d,]\<close>.\<close>

definition is_digit_or_comma :: "char \<Rightarrow> bool" where
  "is_digit_or_comma c = (is_digit c \<or> c = CHR '','')"

text \<open>
  A match of \<open>\$[\d,]+\.?\d*\<close> that starts at the head of the string: a dollar sign, one
  or more digits or commas, an optional point, digits. Each part is greedy and no later
  part can fail, so the match never backtracks.
\<close>

definition price_match_at :: "string \<Rightarrow> string option" where
  "price_match_at s =
     (case s of
        [] \<Rightarrow> None
      | c # cs \<Rightarrow>
          let body = takeWhile is_digit_or_comma cs; rest = dropWhile is_digit_or_comma cs in
          if c = CHR ''$'' \<and> body \<noteq> [] then
            (case rest of
               [] \<Rightarrow> Some (c # body)
             | d # ds \<Rightarrow>
                 if d = CHR ''.'' then Some (c # body @ d # takeWhile is_digit ds)
                 else Some (c # body))
          else None)"

text \<open>\<open>re.search(r'\$[\d,]+\.?\d*', price_text)\<close>: the leftmost match, as \<open>.group()\<close>.\<close>

fun price_search :: "string \<Rightarrow> string option" where
  "price_search [] = None"
| "price_search (c # cs) =
     (case price_match_at (c # cs) of Some m \<Rightarrow> Some m | None \<Rightarrow> price_search cs)"

text \<open>Lines 229 to 244: the loop stops at the first selector that matches an element.\<close>

fun first_price :: "element \<Rightarrow> string list \<Rightarrow> string" where
  "first_price item [] = []"
| "first_price item (sel # rest) =
     (case item sel of
        Some price_text \<Rightarrow> (case price_search price_text of Some m \<Rightarrow> m | None \<Rightarrow> [])
      | None \<Rightarrow> first_price item rest)"

text \<open>Lines 204 to 252, the body of the loop over the items: \<open>Some\<close> is an append.\<close>

definition scrape_item :: "element \<Rightarrow> dish option" where
  "scrape_item item =
     (let item_name = first_text item name_selectors;
          description = first_text item desc_selectors;
          price = first_price item price_selectors
      in if item_name \<noteq> [] \<and> (description \<noteq> [] \<or> price \<noteq> [])
         then Some \<lparr>dish_name = item_name, dish_description = description, dish_price = price\<rparr>
         else None)"

text \<open>The body of the \<open>try\<close> of lines 175 to 259.\<close>

definition scrape_try :: "web \<Rightarrow> string \<Rightarrow> exn + dish list" where
  "scrape_try fetch menu_url =
     (case fetch menu_url of
        Inl e \<Rightarrow> Inl e
      | Inr page \<Rightarrow>
          let items = first_items page selectors_to_try in
          if items = [] then Inr [] else Inr (List.map_filter scrape_item items))"

text \<open>Both \<open>except\<close> clauses (lines 261 to 266) return the empty list.\<close>

definition scrape_menu_from_yelp :: "web \<Rightarrow> string \<Rightarrow> exn + dish list" where
  "scrape_menu_from_yelp fetch menu_url =
     (case scrape_try fetch menu_url of
        Inl RequestException \<Rightarrow> Inr []
      | Inl e \<Rightarrow> Inr []
      | Inr menu_items \<Rightarrow> Inr menu_items)"

text \<open>
  The reading of the specification, for comparison: the first selector whose match
  yields a non-empty text.
\<close>

fun spec_first_nonempty_text :: "element \<Rightarrow> string list \<Rightarrow> string" where
  "spec_first_nonempty_text item [] = []"
| "spec_first_nonempty_text item (sel # rest) =
     (case item sel of
        Some txt \<Rightarrow> if txt \<noteq> [] then txt else spec_first_nonempty_text item rest
      | None \<Rightarrow> spec_first_nonempty_text item rest)"

section \<open>\<open>get_menu_data\<close>\<close>

record menu =
  menu_name :: string
  menu_description :: string
  menu_type :: string
  menu_display_order :: int

text \<open>The dict of lines 276 to 281 for a restaurant whose name is the str \<open>nm\<close>.\<close>

definition main_menu :: "string \<Rightarrow> menu" where
  "main_menu nm =
     \<lparr>menu_name = nm @ '' Menu'',
      menu_description = ''Main menu for '' @ nm,
      menu_type = ''main'',
      menu_display_order = 0\<rparr>"

text \<open>
  Lines 268 to 285. \<open>construct_menu_url\<close> is called outside any \<open>try\<close>. The f-strings of
  lines 277 and 278 are reached with a str name only, \<open>construct_menu_url\<close> having raised
  for every other value; the branch for another value stands for that exception.
\<close>

definition get_menu_data :: "web \<Rightarrow> Restaurant \<Rightarrow> exn + (menu list \<times> dish list) option" where
  "get_menu_data fetch restaurant =
     (case construct_menu_url restaurant of
        Inl e \<Rightarrow> Inl e
      | Inr menu_url \<Rightarrow>
          (case scrape_menu_from_yelp fetch menu_url of
             Inl e \<Rightarrow> Inl e
           | Inr scraped_dishes \<Rightarrow>
               if scraped_dishes \<noteq> [] then
                 (case name restaurant of
                    JStr nm \<Rightarrow> Inr (Some ([main_menu nm], scraped_dishes))
                  | _ \<Rightarrow> Inl AttributeError)
               else Inr None))"

section \<open>The database\<close>

text \<open>
  The three tables, each a list of rows with the id the database gave them, in insertion
  order. Every request to the database may raise (network, constraint, server error):
  \<open>faults\<close> holds the outcomes of the requests to come, \<open>True\<close> for one that raises, and
  a request beyond the list succeeds. \<open>calls\<close> counts the requests sent.
\<close>

record menu_row =
  row_restaurant_id :: nat
  row_menu :: menu

record dish_row =
  row_menu_id :: nat
  row_name :: string
  row_description :: string
  row_price :: "rat option"
  row_display_order :: int

record store =
  restaurant_tbl :: "(nat \<times> Restaurant) list"
  menu_tbl :: "(nat \<times> menu_row) list"
  dish_tbl :: "(nat \<times> dish_row) list"
  faults :: "bool list"
  calls :: nat

text \<open>\<open>.execute()\<close>: whether this request raises, and the store with the request counted.\<close>

definition execute :: "store \<Rightarrow> bool \<times> store" where
  "execute db =
     (case faults db of
        [] \<Rightarrow> (False, db\<lparr>calls := calls db + 1\<rparr>)
      | f # fs \<Rightarrow> (f, db\<lparr>faults := fs, calls := calls db + 1\<rparr>))"

text \<open>An id no row of the table has.\<close>

definition fresh_id :: "(nat \<times> 'a) list \<Rightarrow> nat" where
  "fresh_id tbl = Suc (foldr max (map fst tbl) 0)"

text \<open>\<open>table('restaurant').select('id').eq('yelp_id', y).execute()\<close>: the ids in \<open>.data\<close>.\<close>

definition select_restaurant_ids :: "json \<Rightarrow> store \<Rightarrow> (exn + nat list) \<times> store" where
  "select_restaurant_ids y db =
     (case execute db of
        (True, db') \<Rightarrow> (Inl APIError, db')
      | (False, db') \<Rightarrow>
          (Inr (map fst (filter (\<lambda>row. yelp_id (snd row) = y) (restaurant_tbl db'))), db'))"

text \<open>The three inserts: a row with a fresh id is appended, and the id comes back.\<close>

definition insert_restaurant :: "Restaurant \<Rightarrow> store \<Rightarrow> (exn + nat) \<times> store" where
  "insert_restaurant r db =
     (case execute db of
        (True, db') \<Rightarrow> (Inl APIError, db')
      | (False, db') \<Rightarrow>
          let i = fresh_id (restaurant_tbl db') in
          (Inr i, db'\<lparr>restaurant_tbl := restaurant_tbl db' @ [(i, r)]\<rparr>))"

definition insert_menu :: "menu_row \<Rightarrow> store \<Rightarrow> (exn + nat) \<times> store" where
  "insert_menu m db =
     (case execute db of
        (True, db') \<Rightarrow> (Inl APIError, db')
      | (False, db') \<Rightarrow>
          let i = fresh_id (menu_tbl db') in
          (Inr i, db'\<lparr>menu_tbl := menu_tbl db' @ [(i, m)]\<rparr>))"

definition insert_dish :: "dish_row \<Rightarrow> store \<Rightarrow> (exn + nat) \<times> store" where
  "insert_dish d db =
     (case execute db of
        (True, db') \<Rightarrow> (Inl APIError, db')
      | (False, db') \<Rightarrow>
          let i = fresh_id (dish_tbl db') in
          (Inr i, db'\<lparr>dish_tbl := dish_tbl db' @ [(i, d)]\<rparr>))"

section \<open>\<open>save_to_database\<close>\<close>

text \<open>
  Lines 316 to 325: the id of the first row with the restaurant's \<open>yelp_id\<close> when there is
  one, otherwise the id of a newly inserted row.
\<close>

definition resolve_restaurant_id :: "Restaurant \<Rightarrow> store \<Rightarrow> (exn + nat) \<times> store" where
  "resolve_restaurant_id restaurant db =
     (case select_restaurant_ids (yelp_id restaurant) db of
        (Inl e, db') \<Rightarrow> (Inl e, db')
      | (Inr existing, db') \<Rightarrow>
          (case existing of
             i # _ \<Rightarrow> (Inr i, db')
           | [] \<Rightarrow> insert_restaurant restaurant db'))"

text \<open>The row of lines 340 to 346.\<close>

definition dish_insert_data :: "nat \<Rightarrow> dish \<Rightarrow> dish_row" where
  "dish_insert_data menu_id dish_data =
     \<lparr>row_menu_id = menu_id,
      row_name = dish_name dish_data,
      row_description = dish_description dish_data,
      row_price = clean_price (dish_price dish_data),
      row_display_order = 0\<rparr>"

text \<open>Lines 336 to 348: the loop over the dishes. An exception leaves the loop.\<close>

fun insert_dishes :: "nat \<Rightarrow> dish list \<Rightarrow> store \<Rightarrow> (exn + unit) \<times> store" where
  "insert_dishes menu_id [] db = (Inr (), db)"
| "insert_dishes menu_id (dish_data # rest) db =
     (case insert_dish (dish_insert_data menu_id dish_data) db of
        (Inl e, db') \<Rightarrow> (Inl e, db')
      | (Inr _, db') \<Rightarrow> insert_dishes menu_id rest db')"

text \<open>Lines 328 to 350: the loop over the menus.\<close>

fun insert_menus :: "nat \<Rightarrow> menu list \<Rightarrow> dish list \<Rightarrow> store \<Rightarrow> (exn + unit) \<times> store" where
  "insert_menus restaurant_id [] dishes db = (Inr (), db)"
| "insert_menus restaurant_id (menu_data # rest) dishes db =
     (case insert_menu \<lparr>row_restaurant_id = restaurant_id, row_menu = menu_data\<rparr> db of
        (Inl e, db') \<Rightarrow> (Inl e, db')
      | (Inr menu_id, db') \<Rightarrow>
          (case insert_dishes menu_id dishes db' of
             (Inl e, db'') \<Rightarrow> (Inl e, db'')
           | (Inr _, db'') \<Rightarrow> insert_menus restaurant_id rest dishes db''))"

text \<open>The body of the \<open>try\<close> of lines 302 to 350.\<close>

definition save_try :: "Restaurant \<Rightarrow> menu list \<Rightarrow> dish list \<Rightarrow> store \<Rightarrow> (exn + unit) \<times> store" where
  "save_try restaurant menus dishes db =
     (case resolve_restaurant_id restaurant db of
        (Inl e, db') \<Rightarrow> (Inl e, db')
      | (Inr restaurant_id, db') \<Rightarrow> insert_menus restaurant_id menus dishes db')"

text \<open>The \<open>except Exception\<close> of lines 352 and 353 logs the exception and returns.\<close>

definition save_to_database ::
  "Restaurant \<Rightarrow> menu list \<Rightarrow> dish list \<Rightarrow> store \<Rightarrow> (exn + unit) \<times> store" where
  "save_to_database restaurant menus dishes db =
     (case save_try restaurant menus dishes db of
        (Inl e, db') \<Rightarrow> (Inr (), db')
      | (Inr _, db') \<Rightarrow> (Inr (), db'))"

text \<open>The external identifiers of the restaurant rows, in table order.\<close>

definition stored_yelp_ids :: "store \<Rightarrow> json list" where
  "stored_yelp_ids db = map (\<lambda>row. yelp_id (snd row)) (restaurant_tbl db)"

section \<open>\<open>collect_san_ramon_data\<close>\<close>

text \<open>The outside world of one run: the directory, its detail endpoint, the menu pages.\<close>

record sources =
  directory_api :: directory
  details_api :: "json \<Rightarrow> exn + json"
  menu_pages :: web

text \<open>\<open>d[key] = v\<close>: the newest item of a key comes first and is the one a lookup finds.\<close>

definition set_item :: "business \<Rightarrow> string \<Rightarrow> json \<Rightarrow> business" where
  "set_item d key v = (key, v) # d"

text \<open>
  One element of an iterable handed to \<open>dict.update\<close>: it must be a sequence of length 2,
  key and value, else \<open>TypeError\<close> (not a sequence) or \<open>ValueError\<close> (another length). A
  list or dict as key is unhashable. A key that is not a str makes an item that no lookup
  of the scraper reads, all of them using str keys, and is left out.
\<close>

definition update_element :: "business \<Rightarrow> json \<Rightarrow> exn + business" where
  "update_element d element =
     (case element of
        JArr xs \<Rightarrow>
          (case xs of
             [k, v] \<Rightarrow>
               (case k of
                  JStr key \<Rightarrow> Inr (set_item d key v)
                | JArr _ \<Rightarrow> Inl TypeError
                | JObj _ \<Rightarrow> Inl TypeError
                | _ \<Rightarrow> Inr d)
           | _ \<Rightarrow> Inl ValueError)
      | JStr s \<Rightarrow>
          (case s of
             [c1, c2] \<Rightarrow> Inr (set_item d [c1] (JStr [c2]))
           | _ \<Rightarrow> Inl ValueError)
      | JObj items \<Rightarrow>
          (case items of
             [item1, item2] \<Rightarrow> Inr (set_item d (fst item1) (JStr (fst item2)))
           | _ \<Rightarrow> Inl ValueError)
      | _ \<Rightarrow> Inl TypeError)"

fun update_sequence :: "business \<Rightarrow> json list \<Rightarrow> exn + business" where
  "update_sequence d [] = Inr d"
| "update_sequence d (element # rest) =
     (case update_element d element of
        Inl e \<Rightarrow> Inl e
      | Inr d' \<Rightarrow> update_sequence d' rest)"

text \<open>
  \<open>business.update(other)\<close>: the items of a dict replace or extend those of \<open>business\<close>;
  any other value is iterated as a sequence of key and value pairs.
\<close>

definition dict_update :: "business \<Rightarrow> json \<Rightarrow> exn + business" where
  "dict_update d other =
     (case other of
        JObj items \<Rightarrow> Inr (items @ d)
      | _ \<Rightarrow> (case py_iter other of Inl e \<Rightarrow> Inl e | Inr xs \<Rightarrow> update_sequence d xs))"

text \<open>Lines 379 to 381: the business after the detail data is merged in.\<close>

definition merge_details :: "sources \<Rightarrow> business \<Rightarrow> json \<Rightarrow> exn + business" where
  "merge_details src business business_id =
     (case get_restaurant_details (details_api src) business_id of
        None \<Rightarrow> Inr business
      | Some detailed_info \<Rightarrow>
          if truthy detailed_info then dict_update business detailed_info else Inr business)"

text \<open>Lines 379 to 384 for a business with the id \<open>business_id\<close>.\<close>

definition detailed_restaurant :: "sources \<Rightarrow> business \<Rightarrow> json \<Rightarrow> exn + Restaurant" where
  "detailed_restaurant src business business_id =
     (case merge_details src business business_id of
        Inl e \<Rightarrow> Inl e
      | Inr business' \<Rightarrow> convert_to_restaurant business')"

record counters =
  restaurants_processed :: nat
  restaurants_skipped :: nat

text \<open>
  Lines 376 to 401, the body of the loop over the businesses. \<open>business['name']\<close> and
  \<open>business['id']\<close> are subscripts and raise \<open>KeyError\<close> on a missing key; nothing in the
  loop catches an exception, so one raised by the merge, the conversion or the URL
  construction leaves the loop as well.
\<close>

definition process_business ::
  "sources \<Rightarrow> business \<Rightarrow> counters \<times> store \<Rightarrow> (exn + counters) \<times> store" where
  "process_business src business st =
     (case st of (cnt, db) \<Rightarrow>
      (case map_of business ''name'' of
         None \<Rightarrow> (Inl (KeyError ''name''), db)
       | Some _ \<Rightarrow>
      (case map_of business ''id'' of
         None \<Rightarrow> (Inl (KeyError ''id''), db)
       | Some business_id \<Rightarrow>
      (case detailed_restaurant src business business_id of
         Inl e \<Rightarrow> (Inl e, db)
       | Inr restaurant \<Rightarrow>
           (case get_menu_data (menu_pages src) restaurant of
              Inl e \<Rightarrow> (Inl e, db)
            | Inr None \<Rightarrow>
                (Inr (cnt\<lparr>restaurants_skipped := restaurants_skipped cnt + 1\<rparr>), db)
            | Inr (Some (menus, dishes)) \<Rightarrow>
                (case save_to_database restaurant menus dishes db of
                   (Inl e, db') \<Rightarrow> (Inl e, db')
                 | (Inr _, db') \<Rightarrow>
                     (Inr (cnt\<lparr>restaurants_processed := restaurants_processed cnt + 1\<rparr>),
                      db')))))))"

text \<open>Lines 375 to 407: the loop. An exception of the body ends it.\<close>

fun process_businesses ::
  "sources \<Rightarrow> business list \<Rightarrow> counters \<times> store \<Rightarrow> (exn + counters) \<times> store" where
  "process_businesses src [] (cnt, db) = (Inr cnt, db)"
| "process_businesses src (business # rest) (cnt, db) =
     (case process_business src business (cnt, db) of
        (Inl e, db') \<Rightarrow> (Inl e, db')
      | (Inr cnt', db') \<Rightarrow> process_businesses src rest (cnt', db'))"

definition collect_san_ramon_data :: "sources \<Rightarrow> int \<Rightarrow> store \<Rightarrow> (exn + counters) \<times> store" where
  "collect_san_ramon_data src total_restaurants db =
     (let businesses =
            search_restaurants_batch (directory_api src) ''San Ramon, CA'' total_restaurants;
          start = \<lparr>restaurants_processed = 0, restaurants_skipped = 0\<rparr>
      in if businesses = [] then (Inr start, db)
         else process_businesses src businesses (start, db))"

section \<open>Auxiliary notions for the proofs\<close>


section \<open>Notions and sample data for the theorems\<close>

text \<open>
  A logged request is in order when it asks for between 1 and 50 businesses and for no
  more than the total still allows.
\<close>

definition request_ok :: "int \<Rightarrow> search_params \<times> nat \<Rightarrow> bool" where
  "request_ok total_limit entry =
     (0 < param_limit (fst entry) \<and> param_limit (fst entry) \<le> 50 \<and>
      int (snd entry) + param_limit (fst entry) \<le> total_limit)"


text \<open>A directory that always fills the page, and pages that fail or hold no menu.\<close>

definition empty_business :: business where
  "empty_business = []"

definition full_pages :: directory where
  "full_pages params = Inr (replicate (nat (param_limit params)) empty_business)"

text \<open>A directory that ignores \<open>limit\<close> and sends a hundred businesses on every page.\<close>

definition overfull_pages :: directory where
  "overfull_pages params = Inr (replicate 100 empty_business)"

definition failing_web :: web where
  "failing_web url = Inl RequestException"

definition blank_web :: web where
  "blank_web url = Inr (\<lambda>selector. [])"

text \<open>
  Two item containers: one whose \<open>h4\<close> is empty while its \<open>strong\<close> names the dish, and one
  with a name and a price inside a sentence.
\<close>

definition empty_heading_item :: element where
  "empty_heading_item sel =
     (if sel = ''h4'' then Some []
      else if sel = ''strong'' then Some ''Burger''
      else if sel = ''p'' then Some ''Beef patty''
      else None)"

definition burger_item :: element where
  "burger_item sel =
     (if sel = ''h3'' then Some ''Burger''
      else if sel = ''.price'' then Some ''Only $9.99 today''
      else None)"

text \<open>
  A directory with one business, no detail records, and one menu page, for the diner; a
  business whose menu page does not exist; two businesses without an id; a business
  whose \<open>location\<close> is null and one with a category that has no \<open>title\<close>.
\<close>

definition burger_page :: soup where
  "burger_page selector = (if selector = ''div.menu-item'' then [burger_item] else [])"

definition test_diner :: business where
  "test_diner =
     [(''id'', JStr ''abc''), (''name'', JStr ''Test Diner''), (''rating'', JNum (9 / 2)),
      (''review_count'', JNum 120), (''price'', JStr ''$$''),
      (''url'', JStr ''https://www.yelp.com/biz/test-diner-san-ramon''),
      (''location'',
         JObj [(''display_address'', JArr [JStr ''1 Main St'', JStr ''San Ramon, CA''])]),
      (''categories'',
         JArr [JObj [(''alias'', JStr ''diners''), (''title'', JStr ''Diners'')],
               JObj [(''alias'', JStr ''burgers''), (''title'', JStr ''Burgers'')]])]"

definition closed_cafe :: business where
  "closed_cafe = [(''id'', JStr ''xyz''), (''name'', JStr ''Closed Cafe'')]"

definition demo_sources :: sources where
  "demo_sources =
     \<lparr>directory_api = (\<lambda>params. if param_offset params = 0 then Inr [test_diner] else Inr []),
      details_api = (\<lambda>business_id. Inl RequestException),
      menu_pages =
        (\<lambda>url. if url = ''https://www.yelp.com/menu/test-diner-san-ramon''
               then Inr burger_page else Inl RequestException)\<rparr>"

definition empty_store :: store where
  "empty_store = \<lparr>restaurant_tbl = [], menu_tbl = [], dish_tbl = [], faults = [], calls = 0\<rparr>"

definition diner :: Restaurant where
  "diner =
     \<lparr>name = JStr ''Test Diner'', rating = JNum (9 / 2), review_count = JNum 120,
      price_range = JStr ''$$'', yelp_id = JStr ''abc'',
      website = JStr ''https://www.yelp.com/biz/test-diner-san-ramon'',
      address = Some ''1 Main St, San Ramon, CA'', phone = JNull,
      cuisine_type = Some ''Diners, Burgers''\<rparr>"

definition diner_store :: store where
  "diner_store = empty_store\<lparr>restaurant_tbl := [(1, diner)]\<rparr>"

definition three_dishes :: "dish list" where
  "three_dishes =
     [\<lparr>dish_name = ''Burger'', dish_description = [], dish_price = ''$9.99''\<rparr>,
      \<lparr>dish_name = ''Fries'', dish_description = ''Crispy'', dish_price = ''$3.50''\<rparr>,
      \<lparr>dish_name = ''Shake'', dish_description = [], dish_price = ''$5''\<rparr>]"

definition no_counts :: counters where
  "no_counts = \<lparr>restaurants_processed = 0, restaurants_skipped = 0\<rparr>"

definition cafe :: Restaurant where
  "cafe =
     \<lparr>name = JStr ''Closed Cafe'', rating = JNull, review_count = JNull, price_range = JNull,
      yelp_id = JStr ''xyz'', website = JNull, address = None, phone = JNull,
      cuisine_type = None\<rparr>"

definition nameless_a :: business where
  "nameless_a = [(''phone'', JStr ''+19255550100'')]"

definition nameless_b :: business where
  "nameless_b = [(''name'', JStr ''Cafe B'')]"

definition null_location :: business where
  "null_location = [(''id'', JStr ''abc''), (''name'', JStr ''Test Diner''), (''location'', JNull)]"

definition untitled_category :: business where
  "untitled_category =
     [(''id'', JStr ''abc''), (''name'', JStr ''Test Diner''),
      (''categories'', JArr [JObj [(''alias'', JStr ''diners'')]])]"

text \<open>
  A business record with the types the directory documents for the fields that the
  conversion and the URL construction operate on: \<open>name\<close> a str, \<open>location\<close> an object
  whose \<open>display_address\<close> is null or a list of str, \<open>categories\<close> null or a list of objects
  with a str \<open>title\<close>; each of the three keys may be missing.
\<close>

definition is_str :: "json \<Rightarrow> bool" where
  "is_str v = (case v of JStr s \<Rightarrow> True | _ \<Rightarrow> False)"

definition typed_address :: "json \<Rightarrow> bool" where
  "typed_address v =
     (case v of JNull \<Rightarrow> True | JArr xs \<Rightarrow> strings_of xs \<noteq> None | _ \<Rightarrow> False)"

definition typed_location :: "json \<Rightarrow> bool" where
  "typed_location v =
     (case v of
        JObj items \<Rightarrow> typed_address (dict_get items ''display_address'' JNull)
      | _ \<Rightarrow> False)"

definition typed_category :: "json \<Rightarrow> bool" where
  "typed_category v =
     (case v of JObj items \<Rightarrow> is_str (dict_get items ''title'' JNull) | _ \<Rightarrow> False)"

definition typed_categories :: "json \<Rightarrow> bool" where
  "typed_categories v =
     (case v of JNull \<Rightarrow> True | JArr xs \<Rightarrow> list_all typed_category xs | _ \<Rightarrow> False)"

definition typed_business :: "business \<Rightarrow> bool" where
  "typed_business b =
     (is_str (dict_get b ''name'' (JStr [])) \<and>
      typed_location (dict_get b ''location'' (JObj [])) \<and>
      typed_categories (dict_get b ''categories'' JNull))"

text \<open>
  A detail answer that the merge accepts: an exception, a falsy value, or an object that
  is a typed business record.
\<close>

definition typed_details :: "exn + json \<Rightarrow> bool" where
  "typed_details answer =
     (case answer of
        Inl e \<Rightarrow> True
      | Inr v \<Rightarrow> (case v of JObj items \<Rightarrow> typed_business items | _ \<Rightarrow> \<not> truthy v))"

text \<open>
  A business that carries the keys \<open>name\<close> and \<open>id\<close>, is typed, and whose detail answer
  is typed.
\<close>

definition ingestible :: "sources \<Rightarrow> business \<Rightarrow> bool" where
  "ingestible src b =
     (case map_of b ''name'' of
        None \<Rightarrow> False
      | Some nm \<Rightarrow>
          (case map_of b ''id'' of
             None \<Rightarrow> False
           | Some business_id \<Rightarrow> typed_business b \<and> typed_details (details_api src business_id)))"

section \<open>The price parser\<close>

text \<open>
  Claim C6. \<open>clean_price\<close> deletes every character that is neither a digit nor a decimal
  point and converts what is left; it gives \<open>None\<close> on the empty string, when nothing is
  left and when the conversion fails, as for \<open>$1.2.3\<close>. It maps \<open>$12.50\<close> to 12.5,
  \<open>Market Price\<close> and the empty string to \<open>None\<close>, and \<open>$1,234\<close> to 1234.
\<close>

theorem clean_price_parse:
  "clean_price ''$12.50'' = Some (25 / 2) \<and>
   clean_price ''Market Price'' = None \<and>
   clean_price [] = None \<and>
   clean_price ''$1,234'' = Some 1234 \<and>
   clean_price ''$1.2.3'' = None \<and>
   clean_price s =
     (if filter is_digit_or_point s = [] then None
      else py_float (filter is_digit_or_point s))"
proof -
  have ex1: "clean_price ''$12.50'' = Some (25 / 2)"
    by (simp add: clean_price_def py_float_def is_digit_or_point_def is_digit_def
        digits_value_def)
  have ex2: "clean_price ''Market Price'' = None"
    by (simp add: clean_price_def is_digit_or_point_def is_digit_def)
  have ex3: "clean_price [] = None"
    by (simp add: clean_price_def)
  have ex4: "clean_price ''$1,234'' = Some 1234"
    by (simp add: clean_price_def py_float_def is_digit_or_point_def is_digit_def
        digits_value_def)
  have ex5: "clean_price ''$1.2.3'' = None"
    by (simp add: clean_price_def py_float_def is_digit_or_point_def is_digit_def)
  have gen: "clean_price s =
     (if filter is_digit_or_point s = [] then None
      else py_float (filter is_digit_or_point s))"
    by (cases s) (simp_all add: clean_price_def Let_def)
  from ex1 ex2 ex3 ex4 ex5 gen show ?thesis by blast
qed

section \<open>The menu URL\<close>

lemma re_sub_runs_keep_head:
  "\<not> p c \<Longrightarrow> re_sub_runs p (c # cs) = c # re_sub_runs p cs"
  by simp



















section \<open>The paginated search\<close>

lemma search_loop_step:
  assumes "lmt = min 50 (total_limit - int (length acc))"
    and "params = \<lparr>param_location = location, param_limit = lmt, param_offset = int b * 50\<rparr>"
    and "issued' = issued @ [(params, length acc)]"
  shows "search_loop api location total_limit (b # bs) (acc, issued) =
     (if lmt \<le> 0 then (acc, issued)
      else case api params of
             Inl e \<Rightarrow> search_loop api location total_limit bs (acc, issued')
           | Inr businesses \<Rightarrow>
               if businesses = [] then (acc, issued')
               else search_loop api location total_limit bs (acc @ businesses, issued'))"
  by (simp only: assms search_loop.simps Let_def)

lemma search_loop_requests:
  "list_all (request_ok total_limit) issued \<Longrightarrow>
   list_all (request_ok total_limit)
     (snd (search_loop api location total_limit batches (acc, issued)))"
proof (induction batches arbitrary: acc issued)
  case Nil
  then show ?case by simp
next
  case (Cons b bs)
  define lmt where "lmt = min 50 (total_limit - int (length acc))"
  define params where
    "params = \<lparr>param_location = location, param_limit = lmt, param_offset = int b * 50\<rparr>"
  define issued' where "issued' = issued @ [(params, length acc)]"
  note step = search_loop_step [OF lmt_def params_def issued'_def, of api bs]
  show ?case
  proof (cases "lmt \<le> 0")
    case True
    with Cons.prems show ?thesis by (simp only: step if_True snd_conv)
  next
    case False
    then have "0 < lmt" and "lmt \<le> 50" and "int (length acc) + lmt \<le> total_limit"
      by (simp_all add: lmt_def)
    then have "request_ok total_limit (params, length acc)"
      by (simp add: request_ok_def params_def)
    with Cons.prems have ok: "list_all (request_ok total_limit) issued'"
      by (simp add: issued'_def)
    show ?thesis
    proof (cases "api params")
      case (Inl e)
      show ?thesis unfolding step using Inl False Cons.IH [OF ok, of acc] by simp
    next
      case (Inr businesses)
      show ?thesis unfolding step
        using Inr False ok Cons.IH [OF ok, of "acc @ businesses"] by simp
    qed
  qed
qed

lemma search_loop_length:
  "honours_limit api \<Longrightarrow> int (length acc) \<le> total_limit \<Longrightarrow>
   int (length (fst (search_loop api location total_limit batches (acc, issued)))) \<le> total_limit"
proof (induction batches arbitrary: acc issued)
  case Nil
  then show ?case by simp
next
  case (Cons b bs)
  define lmt where "lmt = min 50 (total_limit - int (length acc))"
  define params where
    "params = \<lparr>param_location = location, param_limit = lmt, param_offset = int b * 50\<rparr>"
  define issued' where "issued' = issued @ [(params, length acc)]"
  note step = search_loop_step [OF lmt_def params_def issued'_def, of api bs]
  show ?case
  proof (cases "lmt \<le> 0")
    case True
    with Cons.prems show ?thesis by (simp only: step if_True fst_conv)
  next
    case False
    show ?thesis
    proof (cases "api params")
      case (Inl e)
      show ?thesis unfolding step using Inl False Cons.IH [OF Cons.prems, of issued'] by simp
    next
      case (Inr businesses)
      from Cons.prems(1) have "case api params of Inl e \<Rightarrow> True
          | Inr bs \<Rightarrow> length bs \<le> nat (param_limit params)"
        unfolding honours_limit_def by blast
      with Inr have "length businesses \<le> nat lmt" by (simp add: params_def)
      with False have "int (length businesses) \<le> lmt" by simp
      then have "int (length acc) + int (length businesses) \<le> total_limit"
        by (simp add: lmt_def)
      then have len: "int (length (acc @ businesses)) \<le> total_limit" by simp
      show ?thesis unfolding step
        using False Inr Cons.prems(2) Cons.IH [OF Cons.prems(1) len, of issued'] by simp
    qed
  qed
qed

lemma search_run_negative:
  "total_limit < 0 \<Longrightarrow> search_run api location total_limit = ([], [])"
proof -
  assume "total_limit < 0"
  then have "(total_limit + 50 - 1) div 50 \<le> 0" by simp
  then have "nat ((total_limit + 50 - 1) div 50) = 0" by simp
  then show ?thesis by (simp add: search_run_def)
qed

text \<open>
  The loop adds whatever the page holds: with a directory that sends a hundred businesses
  on a page, a search for 60 returns 100.
\<close>

theorem overfull_page_counterexample:
  "length (search_restaurants_batch overfull_pages ''San Ramon, CA'' 60) = 100"
  by (simp add: search_restaurants_batch_def search_run_def overfull_pages_def upt_rec)

text \<open>
  Claim C5, as the code has it. Every page request that \<open>search_restaurants_batch\<close>
  issues asks for at least 1 and at most 50 businesses, and for no more than
  \<open>total_limit\<close> less the number already collected. When every page the directory sends
  holds no more businesses than the \<open>limit\<close> of its request, the result holds at most
  \<open>total_limit\<close> businesses (none when \<open>total_limit\<close> is negative).
\<close>

theorem search_batch_within_limit:
  "list_all (request_ok total_limit) (snd (search_run api location total_limit)) \<and>
   (honours_limit api \<longrightarrow>
      length (search_restaurants_batch api location total_limit) \<le> nat total_limit)"
proof -
  have req: "list_all (request_ok total_limit) (snd (search_run api location total_limit))"
    unfolding search_run_def Let_def by (rule search_loop_requests) simp
  have len: "honours_limit api \<longrightarrow>
      length (search_restaurants_batch api location total_limit) \<le> nat total_limit"
  proof (cases "0 \<le> total_limit")
    case True
    show ?thesis
    proof
      assume h: "honours_limit api"
      from True have "int (length ([] :: business list)) \<le> total_limit" by simp
      with h have "int (length (fst (search_loop api location total_limit
          [0 ..< nat ((total_limit + 50 - 1) div 50)] ([], [])))) \<le> total_limit"
        by (rule search_loop_length)
      then show "length (search_restaurants_batch api location total_limit) \<le> nat total_limit"
        by (simp add: search_restaurants_batch_def search_run_def)
    qed
  next
    case False
    then have "search_run api location total_limit = ([], [])"
      by (simp add: search_run_negative)
    then show ?thesis by (simp add: search_restaurants_batch_def)
  qed
  from req len show ?thesis by blast
qed

lemma full_pages_honours: "honours_limit full_pages"
  by (simp add: honours_limit_def full_pages_def)

theorem search_batch_within_limit_witness:
  "honours_limit full_pages \<and>
   length (search_restaurants_batch full_pages ''San Ramon, CA'' 60) = 60 \<and>
   map (\<lambda>entry. (param_limit (fst entry), param_offset (fst entry), snd entry))
     (snd (search_run full_pages ''San Ramon, CA'' 60)) = [(50, 0, 0), (10, 50, 50)] \<and>
   length (search_restaurants_batch full_pages ''San Ramon, CA'' 60) \<le> nat 60"
proof -
  have run: "search_run full_pages ''San Ramon, CA'' 60 =
    (replicate 60 empty_business,
     [(\<lparr>param_location = ''San Ramon, CA'', param_limit = 50, param_offset = 0\<rparr>, 0),
      (\<lparr>param_location = ''San Ramon, CA'', param_limit = 10, param_offset = 50\<rparr>, 50)])"
    by (simp add: search_run_def full_pages_def upt_rec replicate_add [symmetric])
  show ?thesis
    using search_batch_within_limit [of 60 full_pages "''San Ramon, CA''"] full_pages_honours
    by (simp add: run search_restaurants_batch_def)
qed

section \<open>The menu extractor\<close>

lemma first_items_none:
  "list_all (\<lambda>sel. page sel = []) sels \<Longrightarrow> first_items page sels = []"
  by (induction sels) simp_all

lemma scrape_returns: "\<exists>menu_items. scrape_menu_from_yelp fetch url = Inr menu_items"
  by (cases "scrape_try fetch url") (auto simp: scrape_menu_from_yelp_def split: exn.split)

text \<open>
  Claim C8. \<open>scrape_menu_from_yelp\<close> never raises: for every outcome of the fetch it
  returns a list. On a fetch error, and on a page where none of the container selectors
  matches an element, the list is empty.
\<close>

theorem scrape_never_raises:
  "(\<exists>menu_items. scrape_menu_from_yelp fetch url = Inr menu_items) \<and>
   (fetch url = Inl e \<longrightarrow> scrape_menu_from_yelp fetch url = Inr []) \<and>
   (fetch url = Inr page \<and> list_all (\<lambda>sel. page sel = []) selectors_to_try \<longrightarrow>
      scrape_menu_from_yelp fetch url = Inr [])"
proof -
  have a: "fetch url = Inl e \<longrightarrow> scrape_menu_from_yelp fetch url = Inr []"
    by (simp add: scrape_menu_from_yelp_def scrape_try_def split: exn.split)
  have b: "fetch url = Inr page \<and> list_all (\<lambda>sel. page sel = []) selectors_to_try \<longrightarrow>
      scrape_menu_from_yelp fetch url = Inr []"
    by (simp add: scrape_menu_from_yelp_def scrape_try_def first_items_none)
  from scrape_returns a b show ?thesis by blast
qed

theorem scrape_never_raises_witness:
  "failing_web ''https://www.yelp.com/menu/x-dublin'' = Inl RequestException \<and>
   scrape_menu_from_yelp failing_web ''https://www.yelp.com/menu/x-dublin'' = Inr [] \<and>
   blank_web ''https://www.yelp.com/menu/x-dublin'' = Inr (\<lambda>selector. []) \<and>
   list_all (\<lambda>sel. (\<lambda>selector. []) sel = ([] :: element list)) selectors_to_try \<and>
   scrape_menu_from_yelp blank_web ''https://www.yelp.com/menu/x-dublin'' = Inr []"
proof -
  have f: "failing_web ''https://www.yelp.com/menu/x-dublin'' = Inl RequestException"
    by (simp add: failing_web_def)
  have g: "blank_web ''https://www.yelp.com/menu/x-dublin'' = Inr (\<lambda>selector. [])"
    by (simp add: blank_web_def)
  have h: "list_all (\<lambda>sel. (\<lambda>selector. []) sel = ([] :: element list)) selectors_to_try"
    by (simp add: selectors_to_try_def)
  from scrape_never_raises [of failing_web "''https://www.yelp.com/menu/x-dublin''" RequestException]
    scrape_never_raises [of blank_web "''https://www.yelp.com/menu/x-dublin''" _ "\<lambda>selector. []"]
    f g h
  show ?thesis by blast
qed

lemma first_text_skip:
  "list_all (\<lambda>sel. item sel = None) pre \<Longrightarrow> first_text item (pre @ rest) = first_text item rest"
  by (induction pre) simp_all

lemma first_price_skip:
  "list_all (\<lambda>sel. item sel = None) pre \<Longrightarrow> first_price item (pre @ rest) = first_price item rest"
  by (induction pre) simp_all

text \<open>
  The field loops stop at the first selector that matches an element, not at the first
  that yields text: the item whose \<open>h4\<close> is empty gets the empty name although \<open>strong\<close>
  holds \<open>Burger\<close>, and is dropped although it has a description.
\<close>

theorem first_match_counterexample:
  "first_text empty_heading_item name_selectors = [] \<and>
   spec_first_nonempty_text empty_heading_item name_selectors = ''Burger'' \<and>
   first_text empty_heading_item desc_selectors = ''Beef patty'' \<and>
   scrape_item empty_heading_item = None"
  by (simp add: empty_heading_item_def name_selectors_def desc_selectors_def
      price_selectors_def scrape_item_def)

text \<open>
  Claim C9, as the code has it. For each field the extractor takes the first selector of
  its list that matches an element of the item, whether or not the text of that element
  is empty: the name and the description are that text, the price is the first match of
  the currency pattern in it or the empty string; a field with no matching selector is
  empty. The three fields are computed independently, and the item is kept exactly when
  the name is non-empty and the description or the price is non-empty.
\<close>

theorem scrape_item_first_match:
  "(list_all (\<lambda>s. item s = None) pre \<and> item sel = Some txt \<longrightarrow>
      first_text item (pre @ sel # post) = txt \<and>
      first_price item (pre @ sel # post) =
        (case price_search txt of Some m \<Rightarrow> m | None \<Rightarrow> [])) \<and>
   (list_all (\<lambda>s. item s = None) sels \<longrightarrow>
      first_text item sels = [] \<and> first_price item sels = []) \<and>
   scrape_item item =
     (if first_text item name_selectors \<noteq> [] \<and>
         (first_text item desc_selectors \<noteq> [] \<or> first_price item price_selectors \<noteq> [])
      then Some \<lparr>dish_name = first_text item name_selectors,
                 dish_description = first_text item desc_selectors,
                 dish_price = first_price item price_selectors\<rparr>
      else None)"
proof -
  have a: "list_all (\<lambda>s. item s = None) pre \<and> item sel = Some txt \<longrightarrow>
      first_text item (pre @ sel # post) = txt \<and>
      first_price item (pre @ sel # post) =
        (case price_search txt of Some m \<Rightarrow> m | None \<Rightarrow> [])"
    by (simp add: first_text_skip first_price_skip)
  have b: "list_all (\<lambda>s. item s = None) sels \<longrightarrow>
      first_text item sels = [] \<and> first_price item sels = []"
    using first_text_skip [of item sels "[]"] first_price_skip [of item sels "[]"] by simp
  have c: "scrape_item item =
     (if first_text item name_selectors \<noteq> [] \<and>
         (first_text item desc_selectors \<noteq> [] \<or> first_price item price_selectors \<noteq> [])
      then Some \<lparr>dish_name = first_text item name_selectors,
                 dish_description = first_text item desc_selectors,
                 dish_price = first_price item price_selectors\<rparr>
      else None)"
    by (simp add: scrape_item_def Let_def)
  from a b c show ?thesis by blast
qed

theorem scrape_item_first_match_witness:
  "list_all (\<lambda>s. burger_item s = None) [''h4'', ''.menu-item-name'', ''.item-name''] \<and>
   burger_item ''h3'' = Some ''Burger'' \<and>
   first_text burger_item name_selectors = ''Burger'' \<and>
   list_all (\<lambda>s. burger_item s = None) desc_selectors \<and>
   first_text burger_item desc_selectors = [] \<and>
   first_price burger_item price_selectors = ''$9.99'' \<and>
   scrape_item burger_item =
     Some \<lparr>dish_name = ''Burger'', dish_description = [], dish_price = ''$9.99''\<rparr>"
proof -
  have pre: "list_all (\<lambda>s. burger_item s = None) [''h4'', ''.menu-item-name'', ''.item-name'']"
    by (simp add: burger_item_def)
  have sel: "burger_item ''h3'' = Some ''Burger''"
    by (simp add: burger_item_def)
  have nosel: "list_all (\<lambda>s. burger_item s = None) desc_selectors"
    by (simp add: burger_item_def desc_selectors_def)
  have split: "name_selectors = [''h4'', ''.menu-item-name'', ''.item-name''] @ ''h3'' # [''strong'']"
    by (simp add: name_selectors_def)
  have price: "first_price burger_item price_selectors = ''$9.99''"
    by (simp add: burger_item_def price_selectors_def price_match_at_def is_digit_or_comma_def
        is_digit_def)
  from scrape_item_first_match [of burger_item "[''h4'', ''.menu-item-name'', ''.item-name'']"
      "''h3''" "''Burger''" "[''strong'']" desc_selectors] pre sel nosel
  have nm: "first_text burger_item name_selectors = ''Burger''"
    and ds: "first_text burger_item desc_selectors = []"
    and it: "scrape_item burger_item =
     (if first_text burger_item name_selectors \<noteq> [] \<and>
         (first_text burger_item desc_selectors \<noteq> [] \<or> first_price burger_item price_selectors \<noteq> [])
      then Some \<lparr>dish_name = first_text burger_item name_selectors,
                 dish_description = first_text burger_item desc_selectors,
                 dish_price = first_price burger_item price_selectors\<rparr>
      else None)"
    unfolding split by blast+
  from it have "scrape_item burger_item =
     Some \<lparr>dish_name = ''Burger'', dish_description = [], dish_price = ''$9.99''\<rparr>"
    by (simp add: nm ds price)
  with pre sel nosel nm ds price show ?thesis by blast
qed

section \<open>The persistence step\<close>

lemma execute_tables [simp]:
  "restaurant_tbl (snd (execute db)) = restaurant_tbl db"
  "menu_tbl (snd (execute db)) = menu_tbl db"
  "dish_tbl (snd (execute db)) = dish_tbl db"
  "calls (snd (execute db)) = calls db + 1"
  by (simp_all add: execute_def split: list.split)

lemma execute_faults:
  "faults db = f # fs \<Longrightarrow> execute db = (f, db\<lparr>faults := fs, calls := calls db + 1\<rparr>)"
  "faults db = [] \<Longrightarrow> execute db = (False, db\<lparr>calls := calls db + 1\<rparr>)"
  by (simp_all add: execute_def)

lemma select_restaurant_ids_eq:
  "select_restaurant_ids y db =
     (if fst (execute db) then Inl APIError
      else Inr (map fst (filter (\<lambda>row. yelp_id (snd row) = y) (restaurant_tbl db))),
      snd (execute db))"
proof (cases "execute db")
  case (Pair failed db')
  then have "restaurant_tbl db' = restaurant_tbl db"
    using execute_tables(1) [of db] by simp
  with Pair show ?thesis by (cases failed) (simp_all add: select_restaurant_ids_def)
qed

lemma insert_restaurant_eq:
  "insert_restaurant r db =
     (if fst (execute db) then (Inl APIError, snd (execute db))
      else (Inr (fresh_id (restaurant_tbl db)),
            (snd (execute db))\<lparr>restaurant_tbl :=
               restaurant_tbl db @ [(fresh_id (restaurant_tbl db), r)]\<rparr>))"
proof (cases "execute db")
  case (Pair failed db')
  then have "restaurant_tbl db' = restaurant_tbl db"
    using execute_tables(1) [of db] by simp
  with Pair show ?thesis by (cases failed) (simp_all add: insert_restaurant_def Let_def)
qed

lemma insert_menu_eq:
  "insert_menu m db =
     (if fst (execute db) then (Inl APIError, snd (execute db))
      else (Inr (fresh_id (menu_tbl db)),
            (snd (execute db))\<lparr>menu_tbl := menu_tbl db @ [(fresh_id (menu_tbl db), m)]\<rparr>))"
proof (cases "execute db")
  case (Pair failed db')
  then have "menu_tbl db' = menu_tbl db"
    using execute_tables(2) [of db] by simp
  with Pair show ?thesis by (cases failed) (simp_all add: insert_menu_def Let_def)
qed

lemma insert_dish_eq:
  "insert_dish d db =
     (if fst (execute db) then (Inl APIError, snd (execute db))
      else (Inr (fresh_id (dish_tbl db)),
            (snd (execute db))\<lparr>dish_tbl := dish_tbl db @ [(fresh_id (dish_tbl db), d)]\<rparr>))"
proof (cases "execute db")
  case (Pair failed db')
  then have "dish_tbl db' = dish_tbl db"
    using execute_tables(3) [of db] by simp
  with Pair show ?thesis by (cases failed) (simp_all add: insert_dish_def Let_def)
qed

lemma insert_dish_restaurants:
  "restaurant_tbl (snd (insert_dish d db)) = restaurant_tbl db"
  by (simp add: insert_dish_eq)

lemma insert_menu_restaurants:
  "restaurant_tbl (snd (insert_menu m db)) = restaurant_tbl db"
  by (simp add: insert_menu_eq)

lemma insert_dishes_restaurants:
  "restaurant_tbl (snd (insert_dishes menu_id dishes db)) = restaurant_tbl db"
proof (induction dishes arbitrary: db)
  case Nil
  show ?case by simp
next
  case (Cons d ds)
  obtain res db' where step: "insert_dish (dish_insert_data menu_id d) db = (res, db')"
    by (cases "insert_dish (dish_insert_data menu_id d) db")
  then have tbl: "restaurant_tbl db' = restaurant_tbl db"
    using insert_dish_restaurants [of "dish_insert_data menu_id d" db] by simp
  show ?case
  proof (cases res)
    case (Inl e)
    with step tbl show ?thesis by simp
  next
    case (Inr i)
    with step tbl Cons.IH [of db'] show ?thesis by simp
  qed
qed

lemma insert_menus_restaurants:
  "restaurant_tbl (snd (insert_menus rid menus dishes db)) = restaurant_tbl db"
proof (induction menus arbitrary: db)
  case Nil
  show ?case by simp
next
  case (Cons m ms)
  obtain res db' where step:
    "insert_menu \<lparr>row_restaurant_id = rid, row_menu = m\<rparr> db = (res, db')"
    by (cases "insert_menu \<lparr>row_restaurant_id = rid, row_menu = m\<rparr> db")
  then have tbl: "restaurant_tbl db' = restaurant_tbl db"
    using insert_menu_restaurants [of "\<lparr>row_restaurant_id = rid, row_menu = m\<rparr>" db] by simp
  show ?case
  proof (cases res)
    case (Inl e)
    with step tbl show ?thesis by simp
  next
    case (Inr menu_id)
    obtain res2 db2 where dstep: "insert_dishes menu_id dishes db' = (res2, db2)"
      by (cases "insert_dishes menu_id dishes db'")
    then have tbl2: "restaurant_tbl db2 = restaurant_tbl db"
      using insert_dishes_restaurants [of menu_id dishes db'] tbl by simp
    show ?thesis
    proof (cases res2)
      case (Inl e)
      with Inr step dstep tbl2 show ?thesis by simp
    next
      case inner: (Inr u)
      with Inr step dstep tbl2 Cons.IH [of db2] show ?thesis by simp
    qed
  qed
qed

lemma save_to_database_eq:
  "snd (save_to_database r menus dishes db) = snd (save_try r menus dishes db)"
  by (cases "save_try r menus dishes db") (simp add: save_to_database_def split: sum.split)

lemma save_to_database_returns:
  "fst (save_to_database r menus dishes db) = Inr ()"
  by (cases "save_try r menus dishes db") (simp add: save_to_database_def split: sum.split)

lemma save_restaurants:
  "restaurant_tbl (snd (save_to_database r menus dishes db)) =
   restaurant_tbl (snd (resolve_restaurant_id r db))"
proof (cases "resolve_restaurant_id r db")
  case (Pair res db')
  show ?thesis
  proof (cases res)
    case (Inl e)
    with Pair show ?thesis by (simp add: save_to_database_eq save_try_def)
  next
    case (Inr rid)
    with Pair show ?thesis
      by (simp add: save_to_database_eq save_try_def insert_menus_restaurants)
  qed
qed

lemma stored_yelp_ids_cong:
  "restaurant_tbl db' = restaurant_tbl db \<Longrightarrow> stored_yelp_ids db' = stored_yelp_ids db"
  by (simp add: stored_yelp_ids_def)

lemma find_filter_head:
  "find P xs = Some x \<Longrightarrow> \<exists>ys. filter P xs = x # ys"
  by (induction xs) (auto split: if_splits)

lemma filter_yelp_id_empty:
  "filter (\<lambda>row. yelp_id (snd row) = y) (restaurant_tbl db) = [] \<Longrightarrow>
   y \<notin> set (stored_yelp_ids db)"
  by (auto simp: stored_yelp_ids_def filter_empty_conv)

lemma resolve_restaurant_id_eq:
  "resolve_restaurant_id r db =
     (if fst (execute db) then (Inl APIError, snd (execute db))
      else case filter (\<lambda>row. yelp_id (snd row) = yelp_id r) (restaurant_tbl db) of
             row # _ \<Rightarrow> (Inr (fst row), snd (execute db))
           | [] \<Rightarrow> insert_restaurant r (snd (execute db)))"
  by (simp add: resolve_restaurant_id_def select_restaurant_ids_eq split: list.split)

lemma resolve_existing:
  assumes "find (\<lambda>row. yelp_id (snd row) = yelp_id r) (restaurant_tbl db) = Some row"
  shows "restaurant_tbl (snd (resolve_restaurant_id r db)) = restaurant_tbl db"
    and "fst (resolve_restaurant_id r db) =
           (if fst (execute db) then Inl APIError else Inr (fst row))"
proof -
  from assms obtain rows where
    "filter (\<lambda>row. yelp_id (snd row) = yelp_id r) (restaurant_tbl db) = row # rows"
    using find_filter_head by fastforce
  then show "restaurant_tbl (snd (resolve_restaurant_id r db)) = restaurant_tbl db"
    and "fst (resolve_restaurant_id r db) =
           (if fst (execute db) then Inl APIError else Inr (fst row))"
    by (simp_all add: resolve_restaurant_id_eq)
qed

lemma resolve_ids:
  "stored_yelp_ids (snd (resolve_restaurant_id r db)) = stored_yelp_ids db \<or>
   (yelp_id r \<notin> set (stored_yelp_ids db) \<and>
    stored_yelp_ids (snd (resolve_restaurant_id r db)) = stored_yelp_ids db @ [yelp_id r])"
proof (cases "fst (execute db)")
  case True
  then show ?thesis by (simp add: resolve_restaurant_id_eq stored_yelp_ids_def)
next
  case False
  show ?thesis
  proof (cases "filter (\<lambda>row. yelp_id (snd row) = yelp_id r) (restaurant_tbl db)")
    case (Cons row rows)
    with False show ?thesis by (simp add: resolve_restaurant_id_eq stored_yelp_ids_def)
  next
    case Nil
    then have "yelp_id r \<notin> set (stored_yelp_ids db)" by (rule filter_yelp_id_empty)
    with Nil False show ?thesis
      by (simp add: resolve_restaurant_id_eq insert_restaurant_eq stored_yelp_ids_def)
  qed
qed

lemma save_ids:
  "stored_yelp_ids (snd (save_to_database r menus dishes db)) = stored_yelp_ids db \<or>
   (yelp_id r \<notin> set (stored_yelp_ids db) \<and>
    stored_yelp_ids (snd (save_to_database r menus dishes db)) =
      stored_yelp_ids db @ [yelp_id r])"
  using resolve_ids [of r db] save_restaurants [of r menus dishes db]
  by (simp add: stored_yelp_ids_def)

lemma save_distinct:
  "distinct (stored_yelp_ids db) \<Longrightarrow>
   distinct (stored_yelp_ids (snd (save_to_database r menus dishes db)))"
  using save_ids [of r menus dishes db] by auto

lemma process_business_store:
  "snd (process_business src b (cnt, db)) = db \<or>
   (\<exists>r menus dishes. snd (process_business src b (cnt, db)) =
      snd (save_to_database r menus dishes db))"
proof (cases "map_of b ''name''")
  case None
  then show ?thesis by (simp add: process_business_def)
next
  case (Some nm)
  show ?thesis
  proof (cases "map_of b ''id''")
    case None
    with Some show ?thesis by (simp add: process_business_def)
  next
    case bid: (Some business_id)
    show ?thesis
    proof (cases "detailed_restaurant src b business_id")
      case (Inl e)
      with Some bid show ?thesis by (simp add: process_business_def)
    next
      case conv: (Inr r)
      show ?thesis
      proof (cases "get_menu_data (menu_pages src) r")
        case (Inl e)
        with Some bid conv show ?thesis by (simp add: process_business_def)
      next
        case (Inr found)
        show ?thesis
        proof (cases found)
          case None
          with Some bid conv Inr show ?thesis by (simp add: process_business_def)
        next
          case found: (Some md)
          obtain menus dishes where md: "md = (menus, dishes)" by (cases md)
          obtain res db' where sv: "save_to_database r menus dishes db = (res, db')"
            by (cases "save_to_database r menus dishes db")
          have "snd (process_business src b (cnt, db)) = db'"
            using Some bid conv Inr found md sv
            by (cases res) (simp_all add: process_business_def)
          with sv have "snd (process_business src b (cnt, db)) =
              snd (save_to_database r menus dishes db)" by simp
          then show ?thesis by blast
        qed
      qed
    qed
  qed
qed

lemma process_business_distinct:
  "distinct (stored_yelp_ids db) \<Longrightarrow>
   distinct (stored_yelp_ids (snd (process_business src b (cnt, db))))"
  using process_business_store [of src b cnt db] save_distinct [of db] by auto

lemma process_businesses_distinct:
  "distinct (stored_yelp_ids db) \<Longrightarrow>
   distinct (stored_yelp_ids (snd (process_businesses src bs (cnt, db))))"
proof (induction bs arbitrary: cnt db)
  case Nil
  then show ?case by simp
next
  case (Cons b bs)
  obtain res db' where step: "process_business src b (cnt, db) = (res, db')"
    by (cases "process_business src b (cnt, db)")
  with Cons.prems process_business_distinct [of db src b cnt]
  have d: "distinct (stored_yelp_ids db')" by simp
  show ?case
  proof (cases res)
    case (Inl e)
    with step d show ?thesis by simp
  next
    case (Inr cnt')
    with step Cons.IH [OF d, of cnt'] show ?thesis by simp
  qed
qed

lemma collect_distinct:
  "distinct (stored_yelp_ids db) \<Longrightarrow>
   distinct (stored_yelp_ids (snd (collect_san_ramon_data src n db)))"
  by (simp add: collect_san_ramon_data_def Let_def process_businesses_distinct)

lemma execute_ok:
  "faults db = [] \<Longrightarrow> \<not> fst (execute db)"
  "faults db = [] \<Longrightarrow> faults (snd (execute db)) = []"
  by (simp_all add: execute_def)

lemma insert_dish_ok:
  "faults db = [] \<Longrightarrow> faults (snd (insert_dish d db)) = []"
  "faults db = [] \<Longrightarrow> fst (insert_dish d db) = Inr (fresh_id (dish_tbl db))"
  "faults db = [] \<Longrightarrow>
     dish_tbl (snd (insert_dish d db)) = dish_tbl db @ [(fresh_id (dish_tbl db), d)]"
  by (simp_all add: insert_dish_eq execute_ok)

lemma insert_dishes_ok:
  "faults db = [] \<Longrightarrow>
   faults (snd (insert_dishes menu_id dishes db)) = [] \<and>
   fst (insert_dishes menu_id dishes db) = Inr () \<and>
   map snd (dish_tbl (snd (insert_dishes menu_id dishes db))) =
     map snd (dish_tbl db) @ map (dish_insert_data menu_id) dishes"
proof (induction dishes arbitrary: db)
  case Nil
  then show ?case by simp
next
  case (Cons d ds)
  let ?row = "dish_insert_data menu_id d"
  obtain res db' where step: "insert_dish ?row db = (res, db')"
    by (cases "insert_dish ?row db")
  with insert_dish_ok [OF Cons.prems, of ?row]
  have ok: "faults db' = []" and res: "res = Inr (fresh_id (dish_tbl db))"
    and tbl: "dish_tbl db' = dish_tbl db @ [(fresh_id (dish_tbl db), ?row)]"
    by simp_all
  from Cons.IH [OF ok] step res tbl show ?case by simp
qed


lemma insert_menu_ok:
  "faults db = [] \<Longrightarrow> faults (snd (insert_menu m db)) = []"
  "faults db = [] \<Longrightarrow> fst (insert_menu m db) = Inr (fresh_id (menu_tbl db))"
  by (simp_all add: insert_menu_eq execute_ok)

lemma insert_menus_ok:
  "faults db = [] \<Longrightarrow> faults (snd (insert_menus rid menus dishes db)) = []"
proof (induction menus arbitrary: db)
  case Nil
  then show ?case by simp
next
  case (Cons m ms)
  let ?row = "\<lparr>row_restaurant_id = rid, row_menu = m\<rparr>"
  obtain res db' where step: "insert_menu ?row db = (res, db')"
    by (cases "insert_menu ?row db")
  with insert_menu_ok [OF Cons.prems, of ?row]
  have ok: "faults db' = []" and res: "res = Inr (fresh_id (menu_tbl db))" by simp_all
  obtain res2 db2 where dstep: "insert_dishes (fresh_id (menu_tbl db)) dishes db' = (res2, db2)"
    by (cases "insert_dishes (fresh_id (menu_tbl db)) dishes db'")
  with insert_dishes_ok [OF ok, of "fresh_id (menu_tbl db)" dishes]
  have ok2: "faults db2 = []" and res2: "res2 = Inr ()" by simp_all
  from Cons.IH [OF ok2] step res dstep res2 show ?case by simp
qed

lemma resolve_ok:
  assumes "faults db = []"
  shows "faults (snd (resolve_restaurant_id r db)) = []"
    and "yelp_id r \<in> set (stored_yelp_ids (snd (resolve_restaurant_id r db)))"
    and "\<exists>i. fst (resolve_restaurant_id r db) = Inr i"
proof -
  let ?db1 = "snd (execute db)"
  from assms have e1: "\<not> fst (execute db)" and f1: "faults ?db1 = []"
    by (simp_all add: execute_ok)
  from f1 have e2: "\<not> fst (execute ?db1)" and f2: "faults (snd (execute ?db1)) = []"
    by (simp_all add: execute_ok)
  show "faults (snd (resolve_restaurant_id r db)) = []"
    using e1 f1 e2 f2
    by (simp add: resolve_restaurant_id_eq insert_restaurant_eq split: list.split)
  show "\<exists>i. fst (resolve_restaurant_id r db) = Inr i"
    using e1 e2
    by (simp add: resolve_restaurant_id_eq insert_restaurant_eq split: list.split)
  show "yelp_id r \<in> set (stored_yelp_ids (snd (resolve_restaurant_id r db)))"
  proof (cases "filter (\<lambda>row. yelp_id (snd row) = yelp_id r) (restaurant_tbl db)")
    case Nil
    with e1 e2 show ?thesis
      by (simp add: resolve_restaurant_id_eq insert_restaurant_eq stored_yelp_ids_def)
  next
    case (Cons row rows)
    then have "row \<in> set (filter (\<lambda>row. yelp_id (snd row) = yelp_id r) (restaurant_tbl db))"
      by simp
    then have "row \<in> set (restaurant_tbl db)" and "yelp_id (snd row) = yelp_id r"
      by simp_all
    then have "yelp_id r \<in> set (stored_yelp_ids db)"
      by (force simp: stored_yelp_ids_def)
    with Cons e1 show ?thesis
      by (simp add: resolve_restaurant_id_eq stored_yelp_ids_def)
  qed
qed

lemma save_ok:
  assumes "faults db = []"
  shows "faults (snd (save_to_database r menus dishes db)) = []"
    and "yelp_id r \<in> set (stored_yelp_ids (snd (save_to_database r menus dishes db)))"
proof -
  obtain res db' where rs: "resolve_restaurant_id r db = (res, db')"
    by (cases "resolve_restaurant_id r db")
  with resolve_ok [OF assms, of r] obtain i where
    ok: "faults db' = []" and res: "res = Inr i" and mem: "yelp_id r \<in> set (stored_yelp_ids db')"
    by auto
  from rs res have "snd (save_to_database r menus dishes db) = snd (insert_menus i menus dishes db')"
    by (simp add: save_to_database_eq save_try_def)
  then show "faults (snd (save_to_database r menus dishes db)) = []"
    using insert_menus_ok [OF ok] by simp
  from mem rs show "yelp_id r \<in> set (stored_yelp_ids (snd (save_to_database r menus dishes db)))"
    using save_restaurants [of r menus dishes db] by (simp add: stored_yelp_ids_def)
qed

lemma count_list_distinct:
  "distinct xs \<Longrightarrow> x \<in> set xs \<Longrightarrow> count_list xs x = 1"
  by (induction xs) (auto simp: count_list_0_iff)

lemma find_yelp_id:
  "y \<in> set (stored_yelp_ids db) \<Longrightarrow>
   \<exists>row. find (\<lambda>row. yelp_id (snd row) = y) (restaurant_tbl db) = Some row"
proof -
  assume "y \<in> set (stored_yelp_ids db)"
  then have "\<exists>row \<in> set (restaurant_tbl db). yelp_id (snd row) = y"
    by (auto simp: stored_yelp_ids_def)
  then have "find (\<lambda>row. yelp_id (snd row) = y) (restaurant_tbl db) \<noteq> None"
    unfolding find_None_iff by blast
  then show ?thesis by blast
qed

lemma save_existing:
  assumes "yelp_id r \<in> set (stored_yelp_ids db)"
  shows "restaurant_tbl (snd (save_to_database r menus dishes db)) = restaurant_tbl db"
proof -
  from assms obtain row where
    "find (\<lambda>row. yelp_id (snd row) = yelp_id r) (restaurant_tbl db) = Some row"
    using find_yelp_id by blast
  then have "restaurant_tbl (snd (resolve_restaurant_id r db)) = restaurant_tbl db"
    by (rule resolve_existing(1))
  then show ?thesis by (simp add: save_restaurants)
qed

text \<open>
  Claim C1. When the restaurant table holds a row with the restaurant's \<open>yelp_id\<close>,
  \<open>save_to_database\<close> leaves the table as it is and resolves to the id of the first such
  row, unless the lookup itself fails. Hence a table with one row per \<open>yelp_id\<close> keeps
  that property through a save and through two runs of the ingestion, and with a working
  database the identifier has exactly one row after a save and a second save adds none.
\<close>

theorem upsert_restaurant_idempotent:
  "(find (\<lambda>row. yelp_id (snd row) = yelp_id r) (restaurant_tbl db) = Some row \<longrightarrow>
      restaurant_tbl (snd (save_to_database r menus dishes db)) = restaurant_tbl db \<and>
      restaurant_tbl (snd (resolve_restaurant_id r db)) = restaurant_tbl db \<and>
      fst (resolve_restaurant_id r db) =
        (if fst (execute db) then Inl APIError else Inr (fst row))) \<and>
   (distinct (stored_yelp_ids db) \<longrightarrow>
      distinct (stored_yelp_ids (snd (save_to_database r menus dishes db))) \<and>
      distinct (stored_yelp_ids
        (snd (collect_san_ramon_data src' n' (snd (collect_san_ramon_data src n db)))))) \<and>
   (distinct (stored_yelp_ids db) \<and> faults db = [] \<longrightarrow>
      count_list (stored_yelp_ids (snd (save_to_database r menus dishes db))) (yelp_id r) = 1 \<and>
      restaurant_tbl
        (snd (save_to_database r menus' dishes' (snd (save_to_database r menus dishes db)))) =
      restaurant_tbl (snd (save_to_database r menus dishes db)))"
proof -
  have a: "find (\<lambda>row. yelp_id (snd row) = yelp_id r) (restaurant_tbl db) = Some row \<longrightarrow>
      restaurant_tbl (snd (save_to_database r menus dishes db)) = restaurant_tbl db \<and>
      restaurant_tbl (snd (resolve_restaurant_id r db)) = restaurant_tbl db \<and>
      fst (resolve_restaurant_id r db) =
        (if fst (execute db) then Inl APIError else Inr (fst row))"
    using resolve_existing [of r db row] save_restaurants [of r menus dishes db] by simp
  have b: "distinct (stored_yelp_ids db) \<longrightarrow>
      distinct (stored_yelp_ids (snd (save_to_database r menus dishes db))) \<and>
      distinct (stored_yelp_ids
        (snd (collect_san_ramon_data src' n' (snd (collect_san_ramon_data src n db)))))"
    using save_distinct collect_distinct by blast
  have c: "distinct (stored_yelp_ids db) \<and> faults db = [] \<longrightarrow>
      count_list (stored_yelp_ids (snd (save_to_database r menus dishes db))) (yelp_id r) = 1 \<and>
      restaurant_tbl
        (snd (save_to_database r menus' dishes' (snd (save_to_database r menus dishes db)))) =
      restaurant_tbl (snd (save_to_database r menus dishes db))"
  proof
    assume h: "distinct (stored_yelp_ids db) \<and> faults db = []"
    then have d: "distinct (stored_yelp_ids (snd (save_to_database r menus dishes db)))"
      using save_distinct by blast
    from h have m: "yelp_id r \<in> set (stored_yelp_ids (snd (save_to_database r menus dishes db)))"
      using save_ok(2) by blast
    from d m have "count_list (stored_yelp_ids (snd (save_to_database r menus dishes db)))
        (yelp_id r) = 1"
      by (rule count_list_distinct)
    moreover from m have "restaurant_tbl
        (snd (save_to_database r menus' dishes' (snd (save_to_database r menus dishes db)))) =
      restaurant_tbl (snd (save_to_database r menus dishes db))"
      by (rule save_existing)
    ultimately show "count_list (stored_yelp_ids (snd (save_to_database r menus dishes db)))
        (yelp_id r) = 1 \<and>
      restaurant_tbl
        (snd (save_to_database r menus' dishes' (snd (save_to_database r menus dishes db)))) =
      restaurant_tbl (snd (save_to_database r menus dishes db))"
      by blast
  qed
  from a b c show ?thesis by blast
qed

theorem upsert_restaurant_idempotent_witness:
  "find (\<lambda>row. yelp_id (snd row) = yelp_id diner) (restaurant_tbl diner_store) = Some (1, diner) \<and>
   restaurant_tbl (snd (save_to_database diner [main_menu ''Test Diner''] three_dishes diner_store)) =
     restaurant_tbl diner_store \<and>
   fst (resolve_restaurant_id diner diner_store) = Inr 1 \<and>
   distinct (stored_yelp_ids empty_store) \<and> faults empty_store = [] \<and>
   distinct (stored_yelp_ids (snd (collect_san_ramon_data demo_sources 1
      (snd (collect_san_ramon_data demo_sources 1 empty_store))))) \<and>
   stored_yelp_ids (snd (collect_san_ramon_data demo_sources 1
      (snd (collect_san_ramon_data demo_sources 1 empty_store)))) = [JStr ''abc''] \<and>
   count_list (stored_yelp_ids (snd (save_to_database diner [main_menu ''Test Diner''] three_dishes
      empty_store))) (yelp_id diner) = 1"
proof -
  have h1: "find (\<lambda>row. yelp_id (snd row) = yelp_id diner) (restaurant_tbl diner_store) =
      Some (1, diner)"
    by (simp add: diner_store_def)
  have h2: "distinct (stored_yelp_ids empty_store)"
    by (simp add: empty_store_def stored_yelp_ids_def)
  have h3: "faults empty_store = []"
    by (simp add: empty_store_def)
  have ex: "\<not> fst (execute diner_store)"
    by (simp add: execute_def diner_store_def empty_store_def)
  have ids: "stored_yelp_ids (snd (collect_san_ramon_data demo_sources 1
      (snd (collect_san_ramon_data demo_sources 1 empty_store)))) = [JStr ''abc'']"
    by code_simp
  from upsert_restaurant_idempotent [where r = diner and db = diner_store and row = "(1, diner)"
      and menus = "[main_menu ''Test Diner'']" and dishes = three_dishes] h1 ex
  have a: "restaurant_tbl (snd (save_to_database diner [main_menu ''Test Diner''] three_dishes diner_store)) =
     restaurant_tbl diner_store" and b: "fst (resolve_restaurant_id diner diner_store) = Inr 1"
    by simp_all
  from upsert_restaurant_idempotent [where r = diner and db = empty_store
      and menus = "[main_menu ''Test Diner'']" and dishes = three_dishes and src = demo_sources
      and src' = demo_sources and n = 1 and n' = 1] h2 h3
  have c: "distinct (stored_yelp_ids (snd (collect_san_ramon_data demo_sources 1
      (snd (collect_san_ramon_data demo_sources 1 empty_store)))))"
    and d: "count_list (stored_yelp_ids (snd (save_to_database diner [main_menu ''Test Diner''] three_dishes
      empty_store))) (yelp_id diner) = 1"
    by blast+
  from h1 a b h2 h3 c ids d show ?thesis by blast
qed




section \<open>The ingestion loop\<close>

lemma construct_menu_url_name:
  "construct_menu_url r = Inr url \<Longrightarrow> \<exists>nm. name r = JStr nm"
  by (cases "name r") (simp_all add: construct_menu_url_def)

lemma construct_menu_url_str:
  "name r = JStr nm \<Longrightarrow> \<exists>url. construct_menu_url r = Inr url"
  by (simp add: construct_menu_url_def)

lemma get_menu_data_eq:
  assumes "name r = JStr nm" and "construct_menu_url r = Inr url"
  shows "get_menu_data fetch r =
     (case scrape_menu_from_yelp fetch url of
        Inl e \<Rightarrow> Inl e
      | Inr ds \<Rightarrow> if ds \<noteq> [] then Inr (Some ([main_menu nm], ds)) else Inr None)"
  using assms by (simp add: get_menu_data_def split: sum.split)

lemma process_business_eq:
  assumes "map_of b ''name'' = Some v" and "map_of b ''id'' = Some bid"
    and "detailed_restaurant src b bid = Inr r"
    and "name r = JStr nm" and "construct_menu_url r = Inr url"
    and "scrape_menu_from_yelp (menu_pages src) url = Inr ds"
  shows "process_business src b (cnt, db) =
     (if ds = [] then (Inr (cnt\<lparr>restaurants_skipped := restaurants_skipped cnt + 1\<rparr>), db)
      else (Inr (cnt\<lparr>restaurants_processed := restaurants_processed cnt + 1\<rparr>),
            snd (save_to_database r [main_menu nm] ds db)))"
proof -
  obtain res db' where sv: "save_to_database r [main_menu nm] ds db = (res, db')"
    by (cases "save_to_database r [main_menu nm] ds db")
  with save_to_database_returns [of r "[main_menu nm]" ds db] have res: "res = Inr ()"
    by simp
  have gm: "get_menu_data (menu_pages src) r =
      (if ds \<noteq> [] then Inr (Some ([main_menu nm], ds)) else Inr None)"
    using get_menu_data_eq [OF assms(4,5), of "menu_pages src"] assms(6) by simp
  show ?thesis
    using assms(1,2,3) sv res gm by (simp add: process_business_def)
qed

lemma save_first_fails:
  assumes "faults db = True # fs"
  shows "save_to_database r menus dishes db =
     (Inr (), db\<lparr>faults := fs, calls := calls db + 1\<rparr>)"
proof -
  from assms have "execute db = (True, db\<lparr>faults := fs, calls := calls db + 1\<rparr>)"
    by (rule execute_faults(1))
  then show ?thesis
    by (simp add: save_to_database_def save_try_def resolve_restaurant_id_def
        select_restaurant_ids_def)
qed

lemma save_calls:
  "calls db < calls (snd (save_to_database r menus dishes db))"
proof -
  have e: "calls db < calls (snd (execute db))" by simp
  have d: "\<And>mid ds s. calls s \<le> calls (snd (insert_dishes mid ds s))"
  proof -
    fix mid ds s
    show "calls s \<le> calls (snd (insert_dishes mid ds s))"
    proof (induction ds arbitrary: s)
      case Nil
      show ?case by simp
    next
      case (Cons x xs)
      obtain res s' where st: "insert_dish (dish_insert_data mid x) s = (res, s')"
        by (cases "insert_dish (dish_insert_data mid x) s")
      then have "calls s \<le> calls s'"
        using insert_dish_eq [of "dish_insert_data mid x" s] by (auto split: if_splits)
      with st Cons.IH [of s'] show ?case by (cases res) auto
    qed
  qed
  have m: "\<And>rid ms ds s. calls s \<le> calls (snd (insert_menus rid ms ds s))"
  proof -
    fix rid ms ds s
    show "calls s \<le> calls (snd (insert_menus rid ms ds s))"
    proof (induction ms arbitrary: s)
      case Nil
      show ?case by simp
    next
      case (Cons x xs)
      let ?row = "\<lparr>row_restaurant_id = rid, row_menu = x\<rparr>"
      obtain res s' where st: "insert_menu ?row s = (res, s')"
        by (cases "insert_menu ?row s")
      then have le1: "calls s \<le> calls s'"
        using insert_menu_eq [of ?row s] by (auto split: if_splits)
      show ?case
      proof (cases res)
        case (Inl e)
        with st le1 show ?thesis by simp
      next
        case (Inr mid)
        obtain res2 s2 where st2: "insert_dishes mid ds s' = (res2, s2)"
          by (cases "insert_dishes mid ds s'")
        with d [of s' mid ds] have le2: "calls s' \<le> calls s2" by simp
        from Inr st st2 le1 le2 Cons.IH [of s2] show ?thesis by (cases res2) auto
      qed
    qed
  qed
  have r: "calls db < calls (snd (resolve_restaurant_id r db))"
    by (auto simp: resolve_restaurant_id_eq insert_restaurant_eq split: list.split)
  obtain res db' where rs: "resolve_restaurant_id r db = (res, db')"
    by (cases "resolve_restaurant_id r db")
  with r have lt: "calls db < calls db'" by simp
  show ?thesis
  proof (cases res)
    case (Inl e)
    with rs lt show ?thesis by (simp add: save_to_database_eq save_try_def)
  next
    case (Inr rid)
    with rs lt m [of db' rid menus dishes] show ?thesis
      by (simp add: save_to_database_eq save_try_def)
  qed
qed

text \<open>
  Claim C2. For a business the loop gets to extract a menu for (it carries \<open>name\<close> and
  \<open>id\<close>, and the merge, the conversion and the URL construction have returned): when the
  extraction yields no item, the store is returned as it was (no request to the database,
  the count of requests included) and the skipped counter goes up by one, the processed
  counter does not; when it yields items, the processed counter goes up by one and the
  store is the result of one call of \<open>save_to_database\<close> with the one synthetic menu
  record, a call that sends at least one request.
\<close>

theorem skip_policy:
  "map_of b ''name'' = Some v \<and> map_of b ''id'' = Some bid \<and>
   detailed_restaurant src b bid = Inr r \<and> name r = JStr nm \<and>
   construct_menu_url r = Inr url \<and>
   scrape_menu_from_yelp (menu_pages src) url = Inr ds \<longrightarrow>
   process_business src b (cnt, db) =
     (if ds = [] then (Inr (cnt\<lparr>restaurants_skipped := restaurants_skipped cnt + 1\<rparr>), db)
      else (Inr (cnt\<lparr>restaurants_processed := restaurants_processed cnt + 1\<rparr>),
            snd (save_to_database r [main_menu nm] ds db))) \<and>
   calls db < calls (snd (save_to_database r [main_menu nm] ds db))"
  using process_business_eq [of b v bid src r nm url ds cnt db] save_calls by blast

theorem skip_policy_witness:
  "map_of closed_cafe ''name'' = Some (JStr ''Closed Cafe'') \<and>
   map_of closed_cafe ''id'' = Some (JStr ''xyz'') \<and>
   detailed_restaurant demo_sources closed_cafe (JStr ''xyz'') = Inr cafe \<and>
   name cafe = JStr ''Closed Cafe'' \<and>
   construct_menu_url cafe = Inr ''https://www.yelp.com/menu/closed-cafe-san-ramon'' \<and>
   scrape_menu_from_yelp (menu_pages demo_sources)
     ''https://www.yelp.com/menu/closed-cafe-san-ramon'' = Inr [] \<and>
   process_business demo_sources closed_cafe (no_counts, empty_store) =
     (Inr \<lparr>restaurants_processed = 0, restaurants_skipped = 1\<rparr>, empty_store) \<and>
   map_of test_diner ''name'' = Some (JStr ''Test Diner'') \<and>
   map_of test_diner ''id'' = Some (JStr ''abc'') \<and>
   detailed_restaurant demo_sources test_diner (JStr ''abc'') = Inr diner \<and>
   name diner = JStr ''Test Diner'' \<and>
   construct_menu_url diner = Inr ''https://www.yelp.com/menu/test-diner-san-ramon'' \<and>
   scrape_menu_from_yelp (menu_pages demo_sources)
     ''https://www.yelp.com/menu/test-diner-san-ramon'' =
     Inr [\<lparr>dish_name = ''Burger'', dish_description = [], dish_price = ''$9.99''\<rparr>] \<and>
   fst (process_business demo_sources test_diner (no_counts, empty_store)) =
     Inr \<lparr>restaurants_processed = 1, restaurants_skipped = 0\<rparr> \<and>
   calls (snd (process_business demo_sources test_diner (no_counts, empty_store))) = 4 \<and>
   map (\<lambda>row. menu_name (row_menu (snd row)))
     (menu_tbl (snd (process_business demo_sources test_diner (no_counts, empty_store)))) =
     [''Test Diner Menu'']"
proof -
  have c1: "map_of closed_cafe ''name'' = Some (JStr ''Closed Cafe'')"
    and c2: "map_of closed_cafe ''id'' = Some (JStr ''xyz'')"
    by (simp_all add: closed_cafe_def)
  have c3: "detailed_restaurant demo_sources closed_cafe (JStr ''xyz'') = Inr cafe"
    by code_simp
  have c4: "name cafe = JStr ''Closed Cafe''" by (simp add: cafe_def)
  have c5: "construct_menu_url cafe = Inr ''https://www.yelp.com/menu/closed-cafe-san-ramon''"
    by code_simp
  have c6: "scrape_menu_from_yelp (menu_pages demo_sources)
     ''https://www.yelp.com/menu/closed-cafe-san-ramon'' = Inr []"
    by code_simp
  have d1: "map_of test_diner ''name'' = Some (JStr ''Test Diner'')"
    and d2: "map_of test_diner ''id'' = Some (JStr ''abc'')"
    by (simp_all add: test_diner_def)
  have d3: "detailed_restaurant demo_sources test_diner (JStr ''abc'') = Inr diner"
    by code_simp
  have d4: "name diner = JStr ''Test Diner''" by (simp add: diner_def)
  have d5: "construct_menu_url diner = Inr ''https://www.yelp.com/menu/test-diner-san-ramon''"
    by code_simp
  have d6: "scrape_menu_from_yelp (menu_pages demo_sources)
     ''https://www.yelp.com/menu/test-diner-san-ramon'' =
     Inr [\<lparr>dish_name = ''Burger'', dish_description = [], dish_price = ''$9.99''\<rparr>]"
    by code_simp
  from skip_policy [of closed_cafe "JStr ''Closed Cafe''" "JStr ''xyz''" demo_sources cafe
      "''Closed Cafe''" "''https://www.yelp.com/menu/closed-cafe-san-ramon''" "[]" no_counts
      empty_store] c1 c2 c3 c4 c5 c6
  have a: "process_business demo_sources closed_cafe (no_counts, empty_store) =
     (Inr \<lparr>restaurants_processed = 0, restaurants_skipped = 1\<rparr>, empty_store)"
    by (simp add: no_counts_def)
  from skip_policy [of test_diner "JStr ''Test Diner''" "JStr ''abc''" demo_sources diner
      "''Test Diner''" "''https://www.yelp.com/menu/test-diner-san-ramon''"
      "[\<lparr>dish_name = ''Burger'', dish_description = [], dish_price = ''$9.99''\<rparr>]" no_counts
      empty_store] d1 d2 d3 d4 d5 d6
  have "process_business demo_sources test_diner (no_counts, empty_store) =
     (Inr (no_counts\<lparr>restaurants_processed := restaurants_processed no_counts + 1\<rparr>),
      snd (save_to_database diner [main_menu ''Test Diner'']
             [\<lparr>dish_name = ''Burger'', dish_description = [], dish_price = ''$9.99''\<rparr>]
             empty_store))"
    by simp
  then have b: "fst (process_business demo_sources test_diner (no_counts, empty_store)) =
     Inr \<lparr>restaurants_processed = 1, restaurants_skipped = 0\<rparr>"
    by (simp add: no_counts_def)
  have e: "calls (snd (process_business demo_sources test_diner (no_counts, empty_store))) = 4"
    by code_simp
  have f: "map (\<lambda>row. menu_name (row_menu (snd row)))
     (menu_tbl (snd (process_business demo_sources test_diner (no_counts, empty_store)))) =
     [''Test Diner Menu'']"
    by code_simp
  from c1 c2 c3 c4 c5 c6 a d1 d2 d3 d4 d5 d6 b e f show ?thesis by blast
qed

lemma dict_get_append:
  "dict_get (items @ b) key dflt =
     (case map_of items key of None \<Rightarrow> dict_get b key dflt | Some v \<Rightarrow> v)"
  by (simp add: dict_get_def map_add_def split: option.split)

lemma dict_get_typed:
  assumes "P (dict_get items key d1)" and "P (dict_get b key d2)"
  shows "P (dict_get (items @ b) key d2)"
proof (cases "map_of items key")
  case None
  with assms(2) show ?thesis by (simp add: dict_get_append)
next
  case (Some v)
  with assms(1) have "P v" by (simp add: dict_get_def)
  with Some show ?thesis by (simp add: dict_get_append)
qed

lemma typed_business_update:
  assumes "typed_business items" and "typed_business b"
  shows "typed_business (items @ b)"
proof -
  have n: "is_str (dict_get (items @ b) ''name'' (JStr []))"
  proof (rule dict_get_typed)
    show "is_str (dict_get items ''name'' (JStr []))"
      using assms(1) by (simp add: typed_business_def)
    show "is_str (dict_get b ''name'' (JStr []))"
      using assms(2) by (simp add: typed_business_def)
  qed
  have l: "typed_location (dict_get (items @ b) ''location'' (JObj []))"
  proof (rule dict_get_typed)
    show "typed_location (dict_get items ''location'' (JObj []))"
      using assms(1) by (simp add: typed_business_def)
    show "typed_location (dict_get b ''location'' (JObj []))"
      using assms(2) by (simp add: typed_business_def)
  qed
  have c: "typed_categories (dict_get (items @ b) ''categories'' JNull)"
  proof (rule dict_get_typed)
    show "typed_categories (dict_get items ''categories'' JNull)"
      using assms(1) by (simp add: typed_business_def)
    show "typed_categories (dict_get b ''categories'' JNull)"
      using assms(2) by (simp add: typed_business_def)
  qed
  from n l c show ?thesis by (simp add: typed_business_def)
qed

lemma merge_details_typed:
  assumes "typed_business b" and "typed_details (details_api src bid)"
  shows "\<exists>b'. merge_details src b bid = Inr b' \<and> typed_business b'"
proof (cases "details_api src bid")
  case (Inl e)
  with assms(1) show ?thesis
    by (simp add: merge_details_def get_restaurant_details_def)
next
  case (Inr v)
  show ?thesis
  proof (cases "truthy v")
    case False
    with Inr assms(1) show ?thesis
      by (simp add: merge_details_def get_restaurant_details_def)
  next
    case True
    with Inr assms(2) obtain items where v: "v = JObj items" and t: "typed_business items"
      by (cases v) (simp_all add: typed_details_def)
    from t assms(1) have "typed_business (items @ b)" by (rule typed_business_update)
    with Inr True v show ?thesis
      by (simp add: merge_details_def get_restaurant_details_def dict_update_def)
  qed
qed

lemma strings_of_join:
  "strings_of xs \<noteq> None \<Longrightarrow> \<exists>s. py_join sep (JArr xs) = Inr s"
  by (auto simp: py_join_def py_iter_def)

lemma address_of_typed:
  assumes "typed_location (dict_get b ''location'' (JObj []))"
  shows "\<exists>a. address_of b = Inr a"
proof -
  from assms obtain items where loc: "dict_get b ''location'' (JObj []) = JObj items"
    and da: "typed_address (dict_get items ''display_address'' JNull)"
    by (cases "dict_get b ''location'' (JObj [])") (simp_all add: typed_location_def)
  let ?da = "dict_get items ''display_address'' JNull"
  show ?thesis
  proof (cases ?da)
    case (JArr xs)
    with da have "strings_of xs \<noteq> None" by (simp add: typed_address_def)
    then obtain s where "py_join '', '' (JArr xs) = Inr s"
      using strings_of_join by blast
    with loc JArr show ?thesis by (simp add: address_of_def attr_get_def)
  next
    case JNull
    with loc show ?thesis by (simp add: address_of_def attr_get_def truthy_def)
  next
    case (JBool x)
    with da show ?thesis by (simp add: typed_address_def)
  next
    case (JNum x)
    with da show ?thesis by (simp add: typed_address_def)
  next
    case (JStr x)
    with da show ?thesis by (simp add: typed_address_def)
  next
    case (JObj x)
    with da show ?thesis by (simp add: typed_address_def)
  qed
qed

lemma titles_of_typed:
  "list_all typed_category cats \<Longrightarrow>
   \<exists>titles. titles_of cats = Inr titles \<and> strings_of titles \<noteq> None"
proof (induction cats)
  case Nil
  show ?case by simp
next
  case (Cons cat cats)
  then have c: "typed_category cat" and cs: "list_all typed_category cats" by simp_all
  from c obtain items where cat: "cat = JObj items"
    and t: "is_str (dict_get items ''title'' JNull)"
    by (cases cat) (simp_all add: typed_category_def)
  from t obtain s where s: "map_of items ''title'' = Some (JStr s)"
    by (cases "map_of items ''title''"; cases "dict_get items ''title'' JNull")
      (simp_all add: is_str_def dict_get_def)
  from Cons.IH [OF cs] obtain titles where
    ts: "titles_of cats = Inr titles" and st: "strings_of titles \<noteq> None" by blast
  from cat s ts st show ?case by (auto simp: subscript_def)
qed

lemma cuisine_type_of_typed:
  assumes "typed_categories (dict_get b ''categories'' JNull)"
  shows "\<exists>c. cuisine_type_of b = Inr c"
proof (cases "truthy (dict_get b ''categories'' JNull)")
  case False
  then show ?thesis by (simp add: cuisine_type_of_def)
next
  case True
  with assms obtain cats where v: "dict_get b ''categories'' JNull = JArr cats"
    and tc: "list_all typed_category cats"
    by (cases "dict_get b ''categories'' JNull") (simp_all add: typed_categories_def truthy_def)
  from titles_of_typed [OF tc] obtain titles where
    ts: "titles_of cats = Inr titles" and st: "strings_of titles \<noteq> None" by blast
  from st obtain s where "py_join '', '' (JArr titles) = Inr s"
    using strings_of_join by blast
  with True v ts show ?thesis by (simp add: cuisine_type_of_def py_iter_def)
qed

lemma convert_fields:
  assumes "convert_to_restaurant b = Inr r"
  shows "name r = dict_get b ''name'' (JStr ''Unknown'')"
    and "yelp_id r = dict_get b ''id'' (JStr [])"
  using assms by (auto simp: convert_to_restaurant_def split: sum.splits)

lemma convert_typed:
  assumes "typed_business b"
  shows "\<exists>r. convert_to_restaurant b = Inr r \<and> is_str (name r)"
proof -
  from assms obtain a where a: "address_of b = Inr a"
    using address_of_typed by (auto simp: typed_business_def)
  from assms obtain c where c: "cuisine_type_of b = Inr c"
    using cuisine_type_of_typed by (auto simp: typed_business_def)
  from a c obtain r where r: "convert_to_restaurant b = Inr r"
    by (simp add: convert_to_restaurant_def)
  from assms have "is_str (dict_get b ''name'' (JStr ''Unknown''))"
    by (cases "map_of b ''name''") (simp_all add: typed_business_def dict_get_def is_str_def)
  with convert_fields(1) [OF r] have "is_str (name r)" by simp
  with r show ?thesis by blast
qed

lemma process_business_counted:
  assumes "ingestible src b"
  shows "\<exists>cnt' db'. process_business src b (cnt, db) = (Inr cnt', db') \<and>
     restaurants_processed cnt' + restaurants_skipped cnt' =
       restaurants_processed cnt + restaurants_skipped cnt + 1"
proof -
  from assms obtain v bid where nm: "map_of b ''name'' = Some v"
    and bid: "map_of b ''id'' = Some bid"
    and tb: "typed_business b" and td: "typed_details (details_api src bid)"
    by (auto simp: ingestible_def split: option.splits)
  from merge_details_typed [OF tb td] obtain b' where
    m: "merge_details src b bid = Inr b'" and tb': "typed_business b'" by blast
  from convert_typed [OF tb'] obtain r where
    r: "convert_to_restaurant b' = Inr r" and sn: "is_str (name r)" by blast
  from m r have dr: "detailed_restaurant src b bid = Inr r"
    by (simp add: detailed_restaurant_def)
  from sn obtain n where n: "name r = JStr n"
    by (cases "name r") (simp_all add: is_str_def)
  then obtain url where url: "construct_menu_url r = Inr url"
    using construct_menu_url_str by blast
  obtain ds where ds: "scrape_menu_from_yelp (menu_pages src) url = Inr ds"
    using scrape_returns by blast
  show ?thesis
    unfolding process_business_eq [OF nm bid dr n url ds] by (cases "ds = []") simp_all
qed

lemma process_businesses_counted:
  "list_all (ingestible src) bs \<Longrightarrow>
   \<exists>cnt' db'. process_businesses src bs (cnt, db) = (Inr cnt', db') \<and>
     restaurants_processed cnt' + restaurants_skipped cnt' =
       restaurants_processed cnt + restaurants_skipped cnt + length bs"
proof (induction bs arbitrary: cnt db)
  case Nil
  show ?case by simp
next
  case (Cons b bs)
  then have b: "ingestible src b" and bs: "list_all (ingestible src) bs" by simp_all
  from process_business_counted [OF b, of cnt db] obtain cnt1 db1 where
    step: "process_business src b (cnt, db) = (Inr cnt1, db1)"
    and c1: "restaurants_processed cnt1 + restaurants_skipped cnt1 =
       restaurants_processed cnt + restaurants_skipped cnt + 1"
    by blast
  from Cons.IH [OF bs, of cnt1 db1] obtain cnt2 db2 where
    rest: "process_businesses src bs (cnt1, db1) = (Inr cnt2, db2)"
    and c2: "restaurants_processed cnt2 + restaurants_skipped cnt2 =
       restaurants_processed cnt1 + restaurants_skipped cnt1 + length bs"
    by blast
  from step rest have "process_businesses src (b # bs) (cnt, db) = (Inr cnt2, db2)" by simp
  moreover from c1 c2 have "restaurants_processed cnt2 + restaurants_skipped cnt2 =
       restaurants_processed cnt + restaurants_skipped cnt + length (b # bs)" by simp
  ultimately show ?case by blast
qed

text \<open>
  A business without the key \<open>id\<close> ends the run with \<open>KeyError\<close> before the next business
  is looked at, and so does one whose \<open>location\<close> is null, with \<open>AttributeError\<close> from the
  conversion; and a business whose save fails at the first request is counted as
  processed, not as skipped.
\<close>

theorem batch_abort_counterexample:
  "process_businesses demo_sources [nameless_b, test_diner] (no_counts, empty_store) =
     (Inl (KeyError ''id''), empty_store) \<and>
   process_businesses demo_sources [null_location, test_diner] (no_counts, empty_store) =
     (Inl AttributeError, empty_store) \<and>
   process_businesses demo_sources [test_diner] (no_counts, empty_store\<lparr>faults := [True]\<rparr>) =
     (Inr \<lparr>restaurants_processed = 1, restaurants_skipped = 0\<rparr>, empty_store\<lparr>calls := 1\<rparr>)"
  by code_simp

text \<open>
  Claim C3, as the code has it. The loop has no handler of its own. Over businesses that
  carry the keys \<open>name\<close> and \<open>id\<close> and are typed, with typed detail answers, it always runs
  to its end and counts every business, whatever the menu fetch and the database do.
  For a business that gets to the extraction, a failed menu fetch and an extraction
  without items are a skip that leaves the store alone; with items the business is
  counted as processed whatever the database does, also when the save fails at its
  first request and writes nothing. A failed detail fetch leaves the summary data, and
  \<open>save_to_database\<close> returns normally on every failure of the database.
\<close>

theorem batch_survives_helper_failures:
  "(list_all (ingestible src) bs \<longrightarrow>
      (\<exists>cnt' db'. process_businesses src bs (cnt, db) = (Inr cnt', db') \<and>
         restaurants_processed cnt' + restaurants_skipped cnt' =
           restaurants_processed cnt + restaurants_skipped cnt + length bs)) \<and>
   (map_of b ''name'' = Some v \<and> map_of b ''id'' = Some bid \<and>
    detailed_restaurant src b bid = Inr r \<and> name r = JStr nm \<and>
    construct_menu_url r = Inr url \<longrightarrow>
      (menu_pages src url = Inl e \<longrightarrow>
         process_business src b (cnt, db) =
           (Inr (cnt\<lparr>restaurants_skipped := restaurants_skipped cnt + 1\<rparr>), db)) \<and>
      (scrape_menu_from_yelp (menu_pages src) url = Inr [] \<longrightarrow>
         process_business src b (cnt, db) =
           (Inr (cnt\<lparr>restaurants_skipped := restaurants_skipped cnt + 1\<rparr>), db)) \<and>
      (scrape_menu_from_yelp (menu_pages src) url = Inr ds \<and> ds \<noteq> [] \<longrightarrow>
         fst (process_business src b (cnt, db)) =
           Inr (cnt\<lparr>restaurants_processed := restaurants_processed cnt + 1\<rparr>)) \<and>
      (scrape_menu_from_yelp (menu_pages src) url = Inr ds \<and> ds \<noteq> [] \<and>
       faults db = True # fs \<longrightarrow>
         process_business src b (cnt, db) =
           (Inr (cnt\<lparr>restaurants_processed := restaurants_processed cnt + 1\<rparr>),
            db\<lparr>faults := fs, calls := calls db + 1\<rparr>))) \<and>
   (details_api src bid = Inl e' \<longrightarrow>
      detailed_restaurant src b bid = convert_to_restaurant b) \<and>
   fst (save_to_database r menus dishes db) = Inr ()"
proof -
  have a: "list_all (ingestible src) bs \<longrightarrow>
      (\<exists>cnt' db'. process_businesses src bs (cnt, db) = (Inr cnt', db') \<and>
         restaurants_processed cnt' + restaurants_skipped cnt' =
           restaurants_processed cnt + restaurants_skipped cnt + length bs)"
    using process_businesses_counted by blast
  have b: "map_of b ''name'' = Some v \<and> map_of b ''id'' = Some bid \<and>
    detailed_restaurant src b bid = Inr r \<and> name r = JStr nm \<and>
    construct_menu_url r = Inr url \<longrightarrow>
      (menu_pages src url = Inl e \<longrightarrow>
         process_business src b (cnt, db) =
           (Inr (cnt\<lparr>restaurants_skipped := restaurants_skipped cnt + 1\<rparr>), db)) \<and>
      (scrape_menu_from_yelp (menu_pages src) url = Inr [] \<longrightarrow>
         process_business src b (cnt, db) =
           (Inr (cnt\<lparr>restaurants_skipped := restaurants_skipped cnt + 1\<rparr>), db)) \<and>
      (scrape_menu_from_yelp (menu_pages src) url = Inr ds \<and> ds \<noteq> [] \<longrightarrow>
         fst (process_business src b (cnt, db)) =
           Inr (cnt\<lparr>restaurants_processed := restaurants_processed cnt + 1\<rparr>)) \<and>
      (scrape_menu_from_yelp (menu_pages src) url = Inr ds \<and> ds \<noteq> [] \<and>
       faults db = True # fs \<longrightarrow>
         process_business src b (cnt, db) =
           (Inr (cnt\<lparr>restaurants_processed := restaurants_processed cnt + 1\<rparr>),
            db\<lparr>faults := fs, calls := calls db + 1\<rparr>))"
  proof
    assume h: "map_of b ''name'' = Some v \<and> map_of b ''id'' = Some bid \<and>
      detailed_restaurant src b bid = Inr r \<and> name r = JStr nm \<and>
      construct_menu_url r = Inr url"
    then have h1: "map_of b ''name'' = Some v" and h2: "map_of b ''id'' = Some bid"
      and h3: "detailed_restaurant src b bid = Inr r" and h4: "name r = JStr nm"
      and h5: "construct_menu_url r = Inr url"
      by simp_all
    note eq = process_business_eq [OF h1 h2 h3 h4 h5]
    have p1: "menu_pages src url = Inl e \<longrightarrow>
         process_business src b (cnt, db) =
           (Inr (cnt\<lparr>restaurants_skipped := restaurants_skipped cnt + 1\<rparr>), db)"
    proof
      assume "menu_pages src url = Inl e"
      then have "scrape_menu_from_yelp (menu_pages src) url = Inr []"
        by (simp add: scrape_menu_from_yelp_def scrape_try_def split: exn.split)
      then show "process_business src b (cnt, db) =
           (Inr (cnt\<lparr>restaurants_skipped := restaurants_skipped cnt + 1\<rparr>), db)"
        using eq [of "[]" cnt db] by simp
    qed
    have p2: "scrape_menu_from_yelp (menu_pages src) url = Inr [] \<longrightarrow>
         process_business src b (cnt, db) =
           (Inr (cnt\<lparr>restaurants_skipped := restaurants_skipped cnt + 1\<rparr>), db)"
      using eq [of "[]" cnt db] by simp
    have p3: "scrape_menu_from_yelp (menu_pages src) url = Inr ds \<and> ds \<noteq> [] \<longrightarrow>
         fst (process_business src b (cnt, db)) =
           Inr (cnt\<lparr>restaurants_processed := restaurants_processed cnt + 1\<rparr>)"
      using eq [of ds cnt db] by simp
    have p4: "scrape_menu_from_yelp (menu_pages src) url = Inr ds \<and> ds \<noteq> [] \<and>
       faults db = True # fs \<longrightarrow>
         process_business src b (cnt, db) =
           (Inr (cnt\<lparr>restaurants_processed := restaurants_processed cnt + 1\<rparr>),
            db\<lparr>faults := fs, calls := calls db + 1\<rparr>)"
      using eq [of ds cnt db] save_first_fails [of db fs r "[main_menu nm]" ds] by simp
    from p1 p2 p3 p4 show "(menu_pages src url = Inl e \<longrightarrow>
         process_business src b (cnt, db) =
           (Inr (cnt\<lparr>restaurants_skipped := restaurants_skipped cnt + 1\<rparr>), db)) \<and>
      (scrape_menu_from_yelp (menu_pages src) url = Inr [] \<longrightarrow>
         process_business src b (cnt, db) =
           (Inr (cnt\<lparr>restaurants_skipped := restaurants_skipped cnt + 1\<rparr>), db)) \<and>
      (scrape_menu_from_yelp (menu_pages src) url = Inr ds \<and> ds \<noteq> [] \<longrightarrow>
         fst (process_business src b (cnt, db)) =
           Inr (cnt\<lparr>restaurants_processed := restaurants_processed cnt + 1\<rparr>)) \<and>
      (scrape_menu_from_yelp (menu_pages src) url = Inr ds \<and> ds \<noteq> [] \<and>
       faults db = True # fs \<longrightarrow>
         process_business src b (cnt, db) =
           (Inr (cnt\<lparr>restaurants_processed := restaurants_processed cnt + 1\<rparr>),
            db\<lparr>faults := fs, calls := calls db + 1\<rparr>))"
      by blast
  qed
  have c: "details_api src bid = Inl e' \<longrightarrow>
      detailed_restaurant src b bid = convert_to_restaurant b"
    by (simp add: detailed_restaurant_def merge_details_def get_restaurant_details_def)
  from a b c save_to_database_returns [of r menus dishes db] show ?thesis by blast
qed

theorem batch_survives_helper_failures_witness:
  "list_all (ingestible demo_sources) [closed_cafe, test_diner] \<and>
   process_businesses demo_sources [closed_cafe, test_diner]
       (no_counts, empty_store\<lparr>faults := [False, True]\<rparr>) =
     (Inr \<lparr>restaurants_processed = 1, restaurants_skipped = 1\<rparr>, empty_store\<lparr>calls := 2\<rparr>) \<and>
   map_of closed_cafe ''name'' = Some (JStr ''Closed Cafe'') \<and>
   map_of closed_cafe ''id'' = Some (JStr ''xyz'') \<and>
   detailed_restaurant demo_sources closed_cafe (JStr ''xyz'') = Inr cafe \<and>
   name cafe = JStr ''Closed Cafe'' \<and>
   construct_menu_url cafe = Inr ''https://www.yelp.com/menu/closed-cafe-san-ramon'' \<and>
   menu_pages demo_sources ''https://www.yelp.com/menu/closed-cafe-san-ramon'' =
     Inl RequestException \<and>
   process_business demo_sources closed_cafe (no_counts, empty_store) =
     (Inr \<lparr>restaurants_processed = 0, restaurants_skipped = 1\<rparr>, empty_store) \<and>
   map_of test_diner ''name'' = Some (JStr ''Test Diner'') \<and>
   map_of test_diner ''id'' = Some (JStr ''abc'') \<and>
   detailed_restaurant demo_sources test_diner (JStr ''abc'') = Inr diner \<and>
   name diner = JStr ''Test Diner'' \<and>
   construct_menu_url diner = Inr ''https://www.yelp.com/menu/test-diner-san-ramon'' \<and>
   scrape_menu_from_yelp (menu_pages demo_sources)
     ''https://www.yelp.com/menu/test-diner-san-ramon'' =
     Inr [\<lparr>dish_name = ''Burger'', dish_description = [], dish_price = ''$9.99''\<rparr>] \<and>
   faults (empty_store\<lparr>faults := [True]\<rparr>) = True # [] \<and>
   process_business demo_sources test_diner (no_counts, empty_store\<lparr>faults := [True]\<rparr>) =
     (Inr \<lparr>restaurants_processed = 1, restaurants_skipped = 0\<rparr>, empty_store\<lparr>calls := 1\<rparr>) \<and>
   details_api demo_sources (JStr ''abc'') = Inl RequestException \<and>
   detailed_restaurant demo_sources test_diner (JStr ''abc'') = convert_to_restaurant test_diner"
proof -
  have h1: "list_all (ingestible demo_sources) [closed_cafe, test_diner]" by code_simp
  have run: "process_businesses demo_sources [closed_cafe, test_diner]
       (no_counts, empty_store\<lparr>faults := [False, True]\<rparr>) =
     (Inr \<lparr>restaurants_processed = 1, restaurants_skipped = 1\<rparr>, empty_store\<lparr>calls := 2\<rparr>)"
    by code_simp
  have c1: "map_of closed_cafe ''name'' = Some (JStr ''Closed Cafe'')"
    and c2: "map_of closed_cafe ''id'' = Some (JStr ''xyz'')"
    by (simp_all add: closed_cafe_def)
  have c3: "detailed_restaurant demo_sources closed_cafe (JStr ''xyz'') = Inr cafe"
    by code_simp
  have c4: "name cafe = JStr ''Closed Cafe''" by (simp add: cafe_def)
  have c5: "construct_menu_url cafe = Inr ''https://www.yelp.com/menu/closed-cafe-san-ramon''"
    by code_simp
  have c6: "menu_pages demo_sources ''https://www.yelp.com/menu/closed-cafe-san-ramon'' =
     Inl RequestException"
    by (simp add: demo_sources_def)
  have d1: "map_of test_diner ''name'' = Some (JStr ''Test Diner'')"
    and d2: "map_of test_diner ''id'' = Some (JStr ''abc'')"
    by (simp_all add: test_diner_def)
  have d3: "detailed_restaurant demo_sources test_diner (JStr ''abc'') = Inr diner"
    by code_simp
  have d4: "name diner = JStr ''Test Diner''" by (simp add: diner_def)
  have d5: "construct_menu_url diner = Inr ''https://www.yelp.com/menu/test-diner-san-ramon''"
    by code_simp
  have d6: "scrape_menu_from_yelp (menu_pages demo_sources)
     ''https://www.yelp.com/menu/test-diner-san-ramon'' =
     Inr [\<lparr>dish_name = ''Burger'', dish_description = [], dish_price = ''$9.99''\<rparr>]"
    by code_simp
  have d7: "faults (empty_store\<lparr>faults := [True]\<rparr>) = True # []" by simp
  have d8: "details_api demo_sources (JStr ''abc'') = Inl RequestException"
    by (simp add: demo_sources_def)
  from batch_survives_helper_failures [where src = demo_sources and b = closed_cafe
      and v = "JStr ''Closed Cafe''" and bid = "JStr ''xyz''" and r = cafe
      and nm = "''Closed Cafe''" and url = "''https://www.yelp.com/menu/closed-cafe-san-ramon''"
      and e = RequestException and cnt = no_counts and db = empty_store] c1 c2 c3 c4 c5 c6
  have a: "process_business demo_sources closed_cafe (no_counts, empty_store) =
     (Inr \<lparr>restaurants_processed = 0, restaurants_skipped = 1\<rparr>, empty_store)"
    by (simp add: no_counts_def)
  from batch_survives_helper_failures [where src = demo_sources and b = test_diner
      and v = "JStr ''Test Diner''" and bid = "JStr ''abc''" and r = diner
      and nm = "''Test Diner''" and url = "''https://www.yelp.com/menu/test-diner-san-ramon''"
      and ds = "[\<lparr>dish_name = ''Burger'', dish_description = [], dish_price = ''$9.99''\<rparr>]"
      and fs = "[]" and cnt = no_counts and db = "empty_store\<lparr>faults := [True]\<rparr>"
      and e' = RequestException]
    d1 d2 d3 d4 d5 d6 d7 d8
  have b: "process_business demo_sources test_diner (no_counts, empty_store\<lparr>faults := [True]\<rparr>) =
     (Inr \<lparr>restaurants_processed = 1, restaurants_skipped = 0\<rparr>, empty_store\<lparr>calls := 1\<rparr>)"
    and c: "detailed_restaurant demo_sources test_diner (JStr ''abc'') =
      convert_to_restaurant test_diner"
    by (simp_all add: no_counts_def empty_store_def)
  from h1 run c1 c2 c3 c4 c5 c6 a d1 d2 d3 d4 d5 d6 d7 b d8 c show ?thesis by blast
qed

section \<open>The conversion to a Restaurant\<close>

text \<open>
  The conversion is not total on business dicts: a \<open>location\<close> that is null has no
  \<open>get\<close>, and a category without \<open>title\<close> has no such key.
\<close>

theorem conversion_raises_counterexample:
  "convert_to_restaurant null_location = Inl AttributeError \<and>
   convert_to_restaurant untitled_category = Inl (KeyError ''title'')"
  by code_simp

text \<open>
  Claim C10, as the code has it. \<open>convert_to_restaurant\<close> returns a Restaurant for every
  typed business record. Whenever it returns, a missing name has become \<open>Unknown\<close> and a
  missing id the empty string, and present ones are kept; so two businesses without an
  id get the same \<open>yelp_id\<close>, and once one of them is saved a save of the other adds no
  restaurant row.
\<close>

theorem convert_to_restaurant_defaults:
  "(typed_business b \<longrightarrow> (\<exists>r. convert_to_restaurant b = Inr r)) \<and>
   (convert_to_restaurant b = Inr r \<longrightarrow>
      (map_of b ''name'' = None \<longrightarrow> name r = JStr ''Unknown'') \<and>
      (map_of b ''name'' = Some nm \<longrightarrow> name r = nm) \<and>
      (map_of b ''id'' = None \<longrightarrow> yelp_id r = JStr []) \<and>
      (map_of b ''id'' = Some bid \<longrightarrow> yelp_id r = bid)) \<and>
   (convert_to_restaurant b = Inr r \<and> convert_to_restaurant b' = Inr r' \<and>
    map_of b ''id'' = None \<and> map_of b' ''id'' = None \<longrightarrow>
      yelp_id r = yelp_id r' \<and>
      (faults db = [] \<longrightarrow>
         restaurant_tbl (snd (save_to_database r' menus' dishes'
            (snd (save_to_database r menus dishes db)))) =
         restaurant_tbl (snd (save_to_database r menus dishes db))))"
proof -
  have tot: "typed_business b \<longrightarrow> (\<exists>r. convert_to_restaurant b = Inr r)"
    using convert_typed by blast
  have dfl: "convert_to_restaurant b = Inr r \<longrightarrow>
      (map_of b ''name'' = None \<longrightarrow> name r = JStr ''Unknown'') \<and>
      (map_of b ''name'' = Some nm \<longrightarrow> name r = nm) \<and>
      (map_of b ''id'' = None \<longrightarrow> yelp_id r = JStr []) \<and>
      (map_of b ''id'' = Some bid \<longrightarrow> yelp_id r = bid)"
    using convert_fields [of b r] by (simp add: dict_get_def)
  have key: "convert_to_restaurant b = Inr r \<and> convert_to_restaurant b' = Inr r' \<and>
    map_of b ''id'' = None \<and> map_of b' ''id'' = None \<longrightarrow>
      yelp_id r = yelp_id r' \<and>
      (faults db = [] \<longrightarrow>
         restaurant_tbl (snd (save_to_database r' menus' dishes'
            (snd (save_to_database r menus dishes db)))) =
         restaurant_tbl (snd (save_to_database r menus dishes db)))"
  proof
    assume h: "convert_to_restaurant b = Inr r \<and> convert_to_restaurant b' = Inr r' \<and>
      map_of b ''id'' = None \<and> map_of b' ''id'' = None"
    then have same: "yelp_id r' = yelp_id r"
      using convert_fields(2) [of b r] convert_fields(2) [of b' r'] by (simp add: dict_get_def)
    have "faults db = [] \<longrightarrow>
         restaurant_tbl (snd (save_to_database r' menus' dishes'
            (snd (save_to_database r menus dishes db)))) =
         restaurant_tbl (snd (save_to_database r menus dishes db))"
    proof
      assume "faults db = []"
      then have "yelp_id r \<in> set (stored_yelp_ids (snd (save_to_database r menus dishes db)))"
        by (rule save_ok(2))
      with same have "yelp_id r' \<in>
          set (stored_yelp_ids (snd (save_to_database r menus dishes db)))"
        by simp
      then show "restaurant_tbl (snd (save_to_database r' menus' dishes'
            (snd (save_to_database r menus dishes db)))) =
         restaurant_tbl (snd (save_to_database r menus dishes db))"
        by (rule save_existing)
    qed
    with same show "yelp_id r = yelp_id r' \<and>
      (faults db = [] \<longrightarrow>
         restaurant_tbl (snd (save_to_database r' menus' dishes'
            (snd (save_to_database r menus dishes db)))) =
         restaurant_tbl (snd (save_to_database r menus dishes db)))"
      by simp
  qed
  from tot dfl key show ?thesis by blast
qed

theorem convert_to_restaurant_defaults_witness:
  "typed_business nameless_a \<and> typed_business nameless_b \<and> typed_business test_diner \<and>
   convert_to_restaurant test_diner = Inr diner \<and>
   map_of test_diner ''name'' = Some (JStr ''Test Diner'') \<and> name diner = JStr ''Test Diner'' \<and>
   map_of test_diner ''id'' = Some (JStr ''abc'') \<and> yelp_id diner = JStr ''abc'' \<and>
   convert_to_restaurant nameless_a =
     Inr \<lparr>name = JStr ''Unknown'', rating = JNull, review_count = JNull, price_range = JNull,
          yelp_id = JStr [], website = JNull, address = None,
          phone = JStr ''+19255550100'', cuisine_type = None\<rparr> \<and>
   convert_to_restaurant nameless_b =
     Inr \<lparr>name = JStr ''Cafe B'', rating = JNull, review_count = JNull, price_range = JNull,
          yelp_id = JStr [], website = JNull, address = None, phone = JNull,
          cuisine_type = None\<rparr> \<and>
   map_of nameless_a ''name'' = None \<and> map_of nameless_a ''id'' = None \<and>
   map_of nameless_b ''id'' = None \<and> faults empty_store = [] \<and>
   map (\<lambda>row. name (snd row))
     (restaurant_tbl (snd (save_to_database
        \<lparr>name = JStr ''Cafe B'', rating = JNull, review_count = JNull, price_range = JNull,
         yelp_id = JStr [], website = JNull, address = None, phone = JNull,
         cuisine_type = None\<rparr> [] []
        (snd (save_to_database
           \<lparr>name = JStr ''Unknown'', rating = JNull, review_count = JNull, price_range = JNull,
            yelp_id = JStr [], website = JNull, address = None,
            phone = JStr ''+19255550100'', cuisine_type = None\<rparr> [] [] empty_store))))) =
     [JStr ''Unknown'']"
proof -
  let ?ra = "\<lparr>name = JStr ''Unknown'', rating = JNull, review_count = JNull,
    price_range = JNull, yelp_id = JStr [], website = JNull, address = None,
    phone = JStr ''+19255550100'', cuisine_type = None\<rparr>"
  let ?rb = "\<lparr>name = JStr ''Cafe B'', rating = JNull, review_count = JNull,
    price_range = JNull, yelp_id = JStr [], website = JNull, address = None, phone = JNull,
    cuisine_type = None\<rparr>"
  have t1: "typed_business nameless_a" and t2: "typed_business nameless_b"
    and t3: "typed_business test_diner"
    by code_simp+
  have n1: "map_of nameless_a ''name'' = None" and i1: "map_of nameless_a ''id'' = None"
    by (simp_all add: nameless_a_def)
  have i2: "map_of nameless_b ''id'' = None" by (simp add: nameless_b_def)
  have d1: "map_of test_diner ''name'' = Some (JStr ''Test Diner'')"
    and d2: "map_of test_diner ''id'' = Some (JStr ''abc'')"
    by (simp_all add: test_diner_def)
  have f: "faults empty_store = []" by (simp add: empty_store_def)
  have ca: "convert_to_restaurant nameless_a = Inr ?ra" by code_simp
  have cb: "convert_to_restaurant nameless_b = Inr ?rb" by code_simp
  have cd: "convert_to_restaurant test_diner = Inr diner" by code_simp
  have one: "map (\<lambda>row. name (snd row))
     (restaurant_tbl (snd (save_to_database ?ra [] [] empty_store))) = [JStr ''Unknown'']"
    by code_simp
  from convert_to_restaurant_defaults [where b = test_diner and r = diner
      and nm = "JStr ''Test Diner''" and bid = "JStr ''abc''"] cd d1 d2
  have a1: "name diner = JStr ''Test Diner''" and a2: "yelp_id diner = JStr ''abc''"
    by blast+
  from convert_to_restaurant_defaults [where b = nameless_a and r = ?ra and b' = nameless_b
      and r' = ?rb and db = empty_store and menus = "[]" and dishes = "[]" and menus' = "[]"
      and dishes' = "[]"] ca cb i1 i2 f
  have "restaurant_tbl (snd (save_to_database ?rb [] []
            (snd (save_to_database ?ra [] [] empty_store)))) =
         restaurant_tbl (snd (save_to_database ?ra [] [] empty_store))"
    by blast
  with one have a3: "map (\<lambda>row. name (snd row))
     (restaurant_tbl (snd (save_to_database ?rb [] []
        (snd (save_to_database ?ra [] [] empty_store))))) = [JStr ''Unknown'']"
    by simp
  from t1 t2 t3 cd d1 a1 d2 a2 ca cb n1 i1 i2 f a3 show ?thesis by blast
qed


end
